theory Spec2Isabelle
  imports Complex_Main
begin

section \<open>Data model\<close>

text \<open>
  The tables of the marketplace database that the auction settlement engine reads and
  writes. Rows are records, a table with an integer primary key that is only looked up
  by key is a map, a table that is scanned is the list of its rows in rowid order.
  Amounts are SQLite REAL columns and Python floats in the source; here they are exact
  rationals, so rounding is not part of the model. Identifiers are SQLite rowids
  (natural numbers); Python treats the id 0 as false, which the model keeps.
  The tables notifications, activity and price_history are only written by the code below
  and the watchlist only feeds notifications; they are left out, as is the column
  expires_at of bids. Errors that the database itself raises (foreign keys, uniqueness,
  locking) are not modelled.
\<close>

datatype auction_status = Open | Closed | Cancelled

datatype listing = Fixed | Auction

datatype txn_type =
  Deposit | Withdrawal | Bid | Bid_increase | Bid_decrease | Bid_refund | Purchase | Sale

datatype txn_status = Pending | Completed | Txn_cancelled

datatype error =
    HTTP nat string
  | NotFoundError string
  | PermissionError string
  | ValidationError string
  | ValueError string

record auction =
  au_id :: nat
  au_artwork_id :: nat
  au_seller_id :: nat
  au_start_price :: rat
  au_reserve_price :: "rat option"
  au_end_time :: "nat option"
  au_status :: auction_status
  au_winner_id :: "nat option"

text \<open>
  \<open>au_end_time\<close> is the instant that the stored ISO string denotes once
  \<open>datetime.fromisoformat\<close> has read it, and \<open>None\<close> when that call raises.
\<close>

record artwork =
  ar_owner_id :: nat
  ar_is_listed :: bool
  ar_listing_type :: "listing option"

record bid =
  b_id :: nat
  b_auction_id :: nat
  b_bidder_id :: nat
  b_amount :: rat
  b_is_active :: bool

record balance =
  available_balance :: rat
  pending_balance :: rat

record txn =
  t_user_id :: nat
  t_type :: txn_type
  t_amount :: rat
  t_status :: txn_status
  t_description :: string
  t_artwork_id :: "nat option"

record db =
  auctions :: "auction list"
  artworks :: "nat \<rightharpoonup> artwork"
  bids :: "bid list"
  balances :: "nat \<rightharpoonup> balance"
  transactions :: "txn list"

text \<open>\<open>Config.PLATFORM_FEE_RATE\<close>, at its default of 0.025.\<close>

definition PLATFORM_FEE_RATE :: rat where
  "PLATFORM_FEE_RATE = 25 / 1000"

section \<open>Queries and updates shared by the services and the routes\<close>

text \<open>Python truthiness of an optional id and of an optional amount.\<close>

definition truthy_id :: "nat option \<Rightarrow> bool" where
  "truthy_id x = (case x of None \<Rightarrow> False | Some n \<Rightarrow> n \<noteq> 0)"

definition truthy_amount :: "rat option \<Rightarrow> bool" where
  "truthy_amount x = (case x of None \<Rightarrow> False | Some v \<Rightarrow> v \<noteq> 0)"

text \<open>\<open>WHERE auction_id = ? AND is_active = 1\<close> on bids.\<close>

definition active_bids :: "db \<Rightarrow> nat \<Rightarrow> bid list" where
  "active_bids s auction_id =
     filter (\<lambda>b. b_auction_id b = auction_id \<and> b_is_active b) (bids s)"

text \<open>
  \<open>ORDER BY amount DESC LIMIT 1\<close>: a row of largest amount. SQLite leaves the choice among
  equal amounts open; the model takes the one of lowest rowid.
\<close>

fun highest :: "bid list \<Rightarrow> bid option" where
  "highest [] = None"
| "highest (b # bs) =
     (case highest bs of
        None \<Rightarrow> Some b
      | Some c \<Rightarrow> if b_amount b < b_amount c then Some c else Some b)"

definition find_winning_bid :: "db \<Rightarrow> nat \<Rightarrow> bid option" where
  "find_winning_bid s auction_id = highest (active_bids s auction_id)"

text \<open>\<open>SELECT MAX(b.amount) ... WHERE b.auction_id = au.id AND b.is_active = 1\<close>.\<close>

fun sql_max :: "rat list \<Rightarrow> rat option" where
  "sql_max [] = None"
| "sql_max (x # xs) = (case sql_max xs of None \<Rightarrow> Some x | Some m \<Rightarrow> Some (max x m))"

definition current_bid :: "db \<Rightarrow> nat \<Rightarrow> rat option" where
  "current_bid s auction_id = sql_max (map b_amount (active_bids s auction_id))"

text \<open>
  \<open>SELECT bidder_id, SUM(amount) AS total_amount, COUNT(*) ... GROUP BY bidder_id\<close> over the
  given rows: one pair per bidder, in ascending bidder order. The count only feeds the text
  of a notification and is dropped.
\<close>

definition group_by_bidder :: "bid list \<Rightarrow> (nat \<times> rat) list" where
  "group_by_bidder rows =
     map (\<lambda>u. (u, sum_list (map b_amount (filter (\<lambda>b. b_bidder_id b = u) rows))))
         (sort (remdups (map b_bidder_id rows)))"

text \<open>\<open>UPDATE bids SET is_active = 0 WHERE auction_id = ? AND bidder_id = ? AND is_active = 1\<close>.\<close>

definition deactivate_bidder :: "nat \<Rightarrow> nat \<Rightarrow> bid \<Rightarrow> bid" where
  "deactivate_bidder auction_id bidder_id b =
     (if b_auction_id b = auction_id \<and> b_bidder_id b = bidder_id \<and> b_is_active b
      then b\<lparr>b_is_active := False\<rparr> else b)"

text \<open>
  \<open>UPDATE transactions SET status = ? WHERE user_id = ? AND artwork_id = ? AND
  type IN ('bid', 'bid_increase') AND status = 'pending'\<close>. The artwork id may be NULL in
  \<open>refund_active_bids\<close>, and then no row matches.
\<close>

definition flip_pending :: "txn_status \<Rightarrow> nat \<Rightarrow> nat option \<Rightarrow> txn \<Rightarrow> txn" where
  "flip_pending new_status user_id artwork_id t =
     (if t_user_id t = user_id \<and> artwork_id \<noteq> None \<and> t_artwork_id t = artwork_id
         \<and> (t_type t = Bid \<or> t_type t = Bid_increase) \<and> t_status t = Pending
      then t\<lparr>t_status := new_status\<rparr> else t)"

definition insert_txn :: "db \<Rightarrow> nat \<Rightarrow> txn_type \<Rightarrow> rat \<Rightarrow> txn_status \<Rightarrow> string \<Rightarrow> nat option \<Rightarrow> db" where
  "insert_txn s user_id ty amount st description artwork_id =
     s\<lparr>transactions := transactions s @
        [\<lparr>t_user_id = user_id, t_type = ty, t_amount = amount, t_status = st,
          t_description = description, t_artwork_id = artwork_id\<rparr>]\<rparr>"

text \<open>\<open>UPDATE auctions SET status = 'closed', winner_id = ? WHERE id = ?\<close>.\<close>

definition close_row :: "nat \<Rightarrow> nat option \<Rightarrow> auction \<Rightarrow> auction" where
  "close_row auction_id winner a =
     (if au_id a = auction_id then a\<lparr>au_status := Closed, au_winner_id := winner\<rparr> else a)"

text \<open>
  \<open>BalanceRepository.update\<close>: every numeric value of the dictionary is ADDED to its column
  (\<open>key = key + ?\<close>); a user without a row is left without one.
\<close>

definition BalanceRepository_update :: "db \<Rightarrow> nat \<Rightarrow> rat option \<Rightarrow> rat option \<Rightarrow> db" where
  "BalanceRepository_update s user_id available pending =
     (case balances s user_id of
        None \<Rightarrow> s
      | Some bal \<Rightarrow>
          s\<lparr>balances := (balances s)(user_id \<mapsto>
             \<lparr>available_balance =
                (case available of None \<Rightarrow> available_balance bal | Some d \<Rightarrow> available_balance bal + d),
              pending_balance =
                (case pending of None \<Rightarrow> pending_balance bal | Some d \<Rightarrow> pending_balance bal + d)\<rparr>)\<rparr>)"

text \<open>\<open>BalanceRepository.get_available_balance\<close>.\<close>

definition get_available_balance :: "db \<Rightarrow> nat \<Rightarrow> rat" where
  "get_available_balance s user_id =
     (case balances s user_id of None \<Rightarrow> 0 | Some bal \<Rightarrow> available_balance bal)"

section \<open>Settlement in the auction service\<close>

text \<open>
  \<open>AuctionService._refund_bidder\<close>. The balances columns default to 0 (schema.sql is not
  among the sources; the specification calls the created row a zero-balance record).
\<close>

definition refund_bidder :: "db \<Rightarrow> nat \<Rightarrow> nat \<Rightarrow> nat \<Rightarrow> rat \<Rightarrow> string \<Rightarrow> db" where
  "refund_bidder s auction_id artwork_id bidder_id total_refund_amount description =
     (let s1 = (case balances s bidder_id of
                  Some bal \<Rightarrow>
                    s\<lparr>balances := (balances s)(bidder_id \<mapsto>
                       \<lparr>available_balance = available_balance bal + total_refund_amount,
                        pending_balance = max 0 (pending_balance bal - total_refund_amount)\<rparr>)\<rparr>
                | None \<Rightarrow>
                    s\<lparr>balances := (balances s)(bidder_id \<mapsto>
                       \<lparr>available_balance = total_refund_amount, pending_balance = 0\<rparr>)\<rparr>);
          s2 = s1\<lparr>transactions :=
                    map (flip_pending Txn_cancelled bidder_id (Some artwork_id)) (transactions s1)\<rparr>;
          s3 = insert_txn s2 bidder_id Bid_refund total_refund_amount Completed description
                 (Some artwork_id)
      in s3\<lparr>bids := map (deactivate_bidder auction_id bidder_id) (bids s3)\<rparr>)"

text \<open>The loop \<open>for bidder in rows: self._refund_bidder(...)\<close> over a fetched result.\<close>

definition refund_each :: "db \<Rightarrow> nat \<Rightarrow> nat \<Rightarrow> string \<Rightarrow> (nat \<times> rat) list \<Rightarrow> db" where
  "refund_each s auction_id artwork_id description rows =
     foldl (\<lambda>s' (u, total). refund_bidder s' auction_id artwork_id u total description) s rows"

definition set_artwork :: "db \<Rightarrow> nat \<Rightarrow> (artwork \<Rightarrow> artwork) \<Rightarrow> db" where
  "set_artwork s artwork_id f =
     (case artworks s artwork_id of
        None \<Rightarrow> s
      | Some ar \<Rightarrow> s\<lparr>artworks := (artworks s)(artwork_id \<mapsto> f ar)\<rparr>)"

text \<open>\<open>AuctionService._process_successful_sale\<close>.\<close>

definition process_successful_sale :: "db \<Rightarrow> nat \<Rightarrow> nat \<Rightarrow> nat \<Rightarrow> rat \<Rightarrow> nat \<Rightarrow> db" where
  "process_successful_sale s auction_id artwork_id winner_id winning_amount seller_id =
     (let platform_fee = winning_amount * PLATFORM_FEE_RATE;
          seller_receives = winning_amount - platform_fee;
          s1 = set_artwork s artwork_id (\<lambda>ar. ar\<lparr>ar_owner_id := winner_id, ar_is_listed := False\<rparr>);
          s2 = (case balances s1 winner_id of
                  Some buyer_balance \<Rightarrow>
                    BalanceRepository_update s1 winner_id None
                      (Some (max 0 (pending_balance buyer_balance - winning_amount)))
                | None \<Rightarrow>
                    s1\<lparr>balances := (balances s1)(winner_id \<mapsto>
                       \<lparr>available_balance = 0, pending_balance = 0\<rparr>)\<rparr>);
          s3 = (case balances s2 seller_id of
                  Some seller_balance \<Rightarrow>
                    BalanceRepository_update s2 seller_id
                      (Some (available_balance seller_balance + seller_receives)) None
                | None \<Rightarrow>
                    s2\<lparr>balances := (balances s2)(seller_id \<mapsto>
                       \<lparr>available_balance = seller_receives, pending_balance = 0\<rparr>)\<rparr>);
          s4 = insert_txn s3 winner_id Purchase winning_amount Completed ''Auction won''
                 (Some artwork_id);
          s5 = insert_txn s4 seller_id Sale seller_receives Completed ''Auction sold''
                 (Some artwork_id);
          losing_bidders =
            group_by_bidder (filter (\<lambda>b. b_bidder_id b \<noteq> winner_id) (active_bids s5 auction_id))
      in refund_each s5 auction_id artwork_id ''Auction ended - bid refunded'' losing_bidders)"

text \<open>\<open>AuctionService._process_reserve_not_met\<close>.\<close>

definition process_reserve_not_met :: "db \<Rightarrow> nat \<Rightarrow> nat \<Rightarrow> db" where
  "process_reserve_not_met s auction_id artwork_id =
     (let s1 = set_artwork s artwork_id (\<lambda>ar. ar\<lparr>ar_is_listed := False\<rparr>);
          all_bidders = group_by_bidder (active_bids s1 auction_id)
      in refund_each s1 auction_id artwork_id ''Reserve price not met - bid refunded'' all_bidders)"

text \<open>
  The seller of an auction row: the stored \<open>seller_id\<close>, or the artwork's owner when that
  is false in Python's sense; settlement raises when the artwork is missing then (the
  message of app.py also names the artwork id).
\<close>

definition resolve_seller :: "db \<Rightarrow> auction \<Rightarrow> error \<Rightarrow> error + nat" where
  "resolve_seller s auction err =
     (if au_seller_id auction \<noteq> 0 then Inr (au_seller_id auction)
      else (case artworks s (au_artwork_id auction) of
              None \<Rightarrow> Inl err
            | Some ar \<Rightarrow> Inr (ar_owner_id ar)))"

text \<open>
  \<open>if winner_id and winning_amount and reserve_price: if winning_amount < reserve_price\<close>.
\<close>

definition reserve_not_met :: "bid option \<Rightarrow> rat option \<Rightarrow> bool" where
  "reserve_not_met winning_bid reserve_price =
     (case winning_bid of
        None \<Rightarrow> False
      | Some wb \<Rightarrow>
          (case reserve_price of
             None \<Rightarrow> False
           | Some r \<Rightarrow> b_bidder_id wb \<noteq> 0 \<and> b_amount wb \<noteq> 0 \<and> r \<noteq> 0 \<and> b_amount wb < r))"

text \<open>\<open>AuctionService.process_ended_auction\<close>, which the background job calls.\<close>

definition process_ended_auction :: "db \<Rightarrow> auction \<Rightarrow> error + db" where
  "process_ended_auction s auction =
     (let auction_id = au_id auction; artwork_id = au_artwork_id auction
      in case resolve_seller s auction (NotFoundError ''Artwork not found'') of
           Inl e \<Rightarrow> Inl e
         | Inr seller_id \<Rightarrow>
             (let winning_bid = find_winning_bid s auction_id;
                  winner_id = map_option b_bidder_id winning_bid;
                  winning_amount = map_option b_amount winning_bid;
                  not_met = reserve_not_met winning_bid (au_reserve_price auction);
                  final_winner_id = (if not_met then None else winner_id);
                  s1 = s\<lparr>auctions := map (close_row auction_id final_winner_id) (auctions s)\<rparr>
              in if truthy_id final_winner_id \<and> truthy_amount winning_amount
                 then Inr (process_successful_sale s1 auction_id artwork_id
                             (the final_winner_id) (the winning_amount) seller_id)
                 else if not_met
                 then Inr (process_reserve_not_met s1 auction_id artwork_id)
                 else Inr (set_artwork s1 artwork_id (\<lambda>ar. ar\<lparr>ar_is_listed := False\<rparr>))))"

section \<open>Settlement, cancellation and the batch loops in app.py\<close>

text \<open>
  The sale branch of \<open>_process_ended_auction\<close>: the buyer's pending balance is SET to
  \<open>max(0, pending - amount)\<close>, the seller's available balance is incremented in SQL, and
  the winner's pending bid transactions are marked completed.
\<close>

definition app_successful_sale :: "db \<Rightarrow> nat \<Rightarrow> nat \<Rightarrow> rat \<Rightarrow> nat \<Rightarrow> db" where
  "app_successful_sale s artwork_id winner_id winning_amount seller_id =
     (let platform_fee = winning_amount * PLATFORM_FEE_RATE;
          seller_receives = winning_amount - platform_fee;
          s1 = set_artwork s artwork_id (\<lambda>ar. ar\<lparr>ar_owner_id := winner_id, ar_is_listed := False\<rparr>);
          s2 = (case balances s1 winner_id of
                  Some buyer_balance \<Rightarrow>
                    s1\<lparr>balances := (balances s1)(winner_id \<mapsto>
                       buyer_balance\<lparr>pending_balance :=
                         max 0 (pending_balance buyer_balance - winning_amount)\<rparr>)\<rparr>
                | None \<Rightarrow>
                    s1\<lparr>balances := (balances s1)(winner_id \<mapsto>
                       \<lparr>available_balance = 0, pending_balance = 0\<rparr>)\<rparr>);
          s3 = (case balances s2 seller_id of
                  Some seller_balance \<Rightarrow>
                    s2\<lparr>balances := (balances s2)(seller_id \<mapsto>
                       seller_balance\<lparr>available_balance :=
                         available_balance seller_balance + seller_receives\<rparr>)\<rparr>
                | None \<Rightarrow>
                    s2\<lparr>balances := (balances s2)(seller_id \<mapsto>
                       \<lparr>available_balance = seller_receives, pending_balance = 0\<rparr>)\<rparr>);
          s4 = s3\<lparr>transactions :=
                    map (flip_pending Completed winner_id (Some artwork_id)) (transactions s3)\<rparr>;
          s5 = insert_txn s4 winner_id Purchase winning_amount Completed ''Auction won''
                 (Some artwork_id)
      in insert_txn s5 seller_id Sale seller_receives Completed ''Auction sold'' (Some artwork_id))"

text \<open>
  The final block of \<open>_process_ended_auction\<close>, \<open>if final_winner_id:\<close>. The body of its
  loop, and of the loop of the reserve branch, is the text of \<open>_refund_bidder\<close> with the
  description filled in.
\<close>

definition app_refund_losing_bidders :: "db \<Rightarrow> nat \<Rightarrow> nat \<Rightarrow> nat option \<Rightarrow> db" where
  "app_refund_losing_bidders s auction_id artwork_id final_winner_id =
     (case final_winner_id of
        None \<Rightarrow> s
      | Some w \<Rightarrow>
          if w = 0 then s
          else refund_each s auction_id artwork_id ''Auction ended - bid refunded''
                 (group_by_bidder (filter (\<lambda>b. b_bidder_id b \<noteq> w) (active_bids s auction_id))))"

text \<open>\<open>_process_ended_auction\<close> of app.py, which the routes call.\<close>

definition app_process_ended_auction :: "db \<Rightarrow> auction \<Rightarrow> error + db" where
  "app_process_ended_auction s auction =
     (let auction_id = au_id auction; artwork_id = au_artwork_id auction
      in case resolve_seller s auction (ValueError ''Artwork not found'') of
           Inl e \<Rightarrow> Inl e
         | Inr seller_id \<Rightarrow>
             (let winning_bid = find_winning_bid s auction_id;
                  winner_id = map_option b_bidder_id winning_bid;
                  winning_amount = map_option b_amount winning_bid;
                  not_met = reserve_not_met winning_bid (au_reserve_price auction);
                  final_winner_id = (if not_met then None else winner_id);
                  s1 = s\<lparr>auctions := map (close_row auction_id final_winner_id) (auctions s)\<rparr>
              in if truthy_id winner_id \<and> truthy_amount winning_amount \<and> \<not> not_met
                 then Inr (app_refund_losing_bidders
                             (app_successful_sale s1 artwork_id (the winner_id)
                                (the winning_amount) seller_id)
                             auction_id artwork_id final_winner_id)
                 else
                   (let s2 = set_artwork s1 artwork_id
                               (\<lambda>ar. ar\<lparr>ar_is_listed := False, ar_listing_type := None\<rparr>)
                    in if not_met
                       then Inr (refund_each s2 auction_id artwork_id
                                   ''Reserve price not met - bid refunded''
                                   (group_by_bidder (active_bids s2 auction_id)))
                       else Inr (app_refund_losing_bidders s2 auction_id artwork_id
                                   final_winner_id))))"

text \<open>
  A request or a job run works on its own connection: what it wrote is kept by
  \<open>commit\<close> and dropped by \<open>rollback\<close> or by closing the connection.
\<close>

definition db_after :: "db \<Rightarrow> error + db \<Rightarrow> db" where
  "db_after s r = (case r of Inl e \<Rightarrow> s | Inr s' \<Rightarrow> s')"

text \<open>\<open>str(exc)\<close>: the message an exception was raised with.\<close>

fun str :: "error \<Rightarrow> string" where
  "str (HTTP code msg) = msg"
| "str (NotFoundError msg) = msg"
| "str (PermissionError msg) = msg"
| "str (ValidationError msg) = msg"
| "str (ValueError msg) = msg"

text \<open>The route \<open>close_auction\<close>, called by the user \<open>user_id\<close> of the session.\<close>

definition close_auction :: "db \<Rightarrow> nat \<Rightarrow> nat \<Rightarrow> error + db" where
  "close_auction s user_id auction_id =
     (case find (\<lambda>a. au_id a = auction_id \<and> au_seller_id a = user_id) (auctions s) of
        None \<Rightarrow> Inl (HTTP 404 ''Auction not found'')
      | Some auction \<Rightarrow>
          (case app_process_ended_auction s auction of
             Inr s' \<Rightarrow> Inr s'
           | Inl exc \<Rightarrow> Inl (HTTP 400 (str exc))))"

text \<open>
  \<open>WHERE au.status = 'open' AND au.end_time <= ?\<close>. SQLite compares the stored strings;
  a string that is no ISO time is taken not to be selected.
\<close>

definition ended_auctions :: "db \<Rightarrow> nat \<Rightarrow> auction list" where
  "ended_auctions s now =
     filter (\<lambda>a. au_status a = Open \<and> (case au_end_time a of None \<Rightarrow> False | Some t \<Rightarrow> t \<le> now))
       (auctions s)"

text \<open>
  The loop of \<open>process_ended_auctions_job\<close> and of the route \<open>process_ended_auctions\<close>:
  \<open>try: settle(db, dict(auction)); count += 1  except Exception: db.rollback(); continue\<close>.
  No commit happens inside the loop, so \<open>rollback\<close> returns the connection to the state
  \<open>committed\<close> it had when the run began; \<open>working\<close> is the state the connection sees.
\<close>

fun process_batch ::
  "(db \<Rightarrow> auction \<Rightarrow> error + db) \<Rightarrow> db \<Rightarrow> db \<Rightarrow> auction list \<Rightarrow> nat \<Rightarrow> db \<times> nat" where
  "process_batch settle committed working [] processed_count = (working, processed_count)"
| "process_batch settle committed working (auction # rest) processed_count =
     (case settle working auction of
        Inr working' \<Rightarrow> process_batch settle committed working' rest (Suc processed_count)
      | Inl exc \<Rightarrow> process_batch settle committed committed rest processed_count)"

text \<open>
  \<open>process_ended_auctions_job\<close> of the jobs package: the database after the final
  \<open>db.commit()\<close>, and the count it logs.
\<close>

definition process_ended_auctions_job :: "db \<Rightarrow> nat \<Rightarrow> db \<times> nat" where
  "process_ended_auctions_job s now =
     process_batch process_ended_auction s s (ended_auctions s now) 0"

text \<open>The route \<open>process_ended_auctions\<close> of app.py.\<close>

definition process_ended_auctions :: "db \<Rightarrow> nat \<Rightarrow> db \<times> nat" where
  "process_ended_auctions s now =
     process_batch app_process_ended_auction s s (ended_auctions s now) 0"

text \<open>
  One bidder of the loop of \<open>refund_active_bids\<close>: \<open>INSERT OR IGNORE INTO balances\<close>, the
  refund with \<open>CASE WHEN pending_balance > ? THEN pending_balance - ? ELSE 0 END\<close>, the
  bidder's pending transactions cancelled, a completed \<open>bid_refund\<close> inserted.
\<close>

definition refund_active_bidder :: "db \<Rightarrow> nat option \<Rightarrow> nat \<Rightarrow> rat \<Rightarrow> db" where
  "refund_active_bidder s artwork_id bidder_id total_refund_amount =
     (let bal = (case balances s bidder_id of
                   None \<Rightarrow> \<lparr>available_balance = 0, pending_balance = 0\<rparr>
                 | Some b \<Rightarrow> b);
          s1 = s\<lparr>balances := (balances s)(bidder_id \<mapsto>
                 \<lparr>available_balance = available_balance bal + total_refund_amount,
                  pending_balance =
                    (if pending_balance bal > total_refund_amount
                     then pending_balance bal - total_refund_amount else 0)\<rparr>)\<rparr>;
          s2 = s1\<lparr>transactions :=
                    map (flip_pending Txn_cancelled bidder_id artwork_id) (transactions s1)\<rparr>
      in insert_txn s2 bidder_id Bid_refund total_refund_amount Completed
           ''Auction cancelled - bid refunded'' artwork_id)"

text \<open>\<open>refund_active_bids\<close>.\<close>

definition refund_active_bids :: "db \<Rightarrow> nat \<Rightarrow> db" where
  "refund_active_bids s auction_id =
     (let artwork_id =
            (case find (\<lambda>a. au_id a = auction_id) (auctions s) of
               None \<Rightarrow> None
             | Some a \<Rightarrow>
                 (case artworks s (au_artwork_id a) of
                    None \<Rightarrow> None
                  | Some ar \<Rightarrow> Some (au_artwork_id a)));
          bidders = group_by_bidder (active_bids s auction_id);
          s1 = foldl (\<lambda>s' (u, total). refund_active_bidder s' artwork_id u total) s bidders
      in s1\<lparr>bids := map (\<lambda>b. if b_auction_id b = auction_id \<and> b_is_active b
                              then b\<lparr>b_is_active := False\<rparr> else b) (bids s1)\<rparr>)"

text \<open>\<open>cancel_auction\<close>; every caller leaves \<open>status\<close> at its default \<open>'cancelled'\<close>.\<close>

definition cancel_auction :: "db \<Rightarrow> nat \<Rightarrow> auction_status \<Rightarrow> db" where
  "cancel_auction s auction_id new_status =
     (case find (\<lambda>a. au_id a = auction_id) (auctions s) of
        None \<Rightarrow> s
      | Some auction \<Rightarrow>
          (let s1 = refund_active_bids s auction_id
           in s1\<lparr>auctions := map (\<lambda>a. if au_id a = auction_id then a\<lparr>au_status := new_status\<rparr> else a)
                                  (auctions s1)\<rparr>))"

section \<open>Bid admission\<close>

text \<open>\<open>auction["current_bid"] or auction["start_price"]\<close>.\<close>

definition min_bid :: "db \<Rightarrow> auction \<Rightarrow> rat" where
  "min_bid s auction =
     (case current_bid s (au_id auction) of
        None \<Rightarrow> au_start_price auction
      | Some c \<Rightarrow> if c = 0 then au_start_price auction else c)"

text \<open>
  \<open>SELECT id, amount FROM bids WHERE auction_id = ? AND bidder_id = ? AND is_active = 1\<close>
  with \<open>fetchone()\<close>.
\<close>

definition find_active_by_bidder :: "db \<Rightarrow> nat \<Rightarrow> nat \<Rightarrow> bid option" where
  "find_active_by_bidder s auction_id bidder_id =
     find (\<lambda>b. b_auction_id b = auction_id \<and> b_bidder_id b = bidder_id \<and> b_is_active b) (bids s)"

text \<open>
  \<open>INSERT OR IGNORE INTO balances (user_id)\<close> followed by
  \<open>SET available_balance = available_balance - ?, pending_balance = pending_balance + ?\<close>.
\<close>

definition hold :: "db \<Rightarrow> nat \<Rightarrow> rat \<Rightarrow> db" where
  "hold s user_id amount =
     (let bal = (case balances s user_id of
                   None \<Rightarrow> \<lparr>available_balance = 0, pending_balance = 0\<rparr>
                 | Some b \<Rightarrow> b)
      in s\<lparr>balances := (balances s)(user_id \<mapsto>
            \<lparr>available_balance = available_balance bal - amount,
             pending_balance = pending_balance bal + amount\<rparr>)\<rparr>)"

text \<open>\<open>UPDATE bids SET amount = ? WHERE id = ?\<close>.\<close>

definition set_bid_amount :: "db \<Rightarrow> nat \<Rightarrow> rat \<Rightarrow> db" where
  "set_bid_amount s bid_id amount =
     s\<lparr>bids := map (\<lambda>b. if b_id b = bid_id then b\<lparr>b_amount := amount\<rparr> else b) (bids s)\<rparr>"

text \<open>\<open>INSERT INTO bids (...) VALUES (?, ?, ?, ?, 1)\<close>; the new rowid follows the largest one.\<close>

definition insert_bid :: "db \<Rightarrow> nat \<Rightarrow> nat \<Rightarrow> rat \<Rightarrow> db" where
  "insert_bid s auction_id bidder_id amount =
     s\<lparr>bids := bids s @
        [\<lparr>b_id = Suc (foldr max (map b_id (bids s)) 0), b_auction_id = auction_id,
          b_bidder_id = bidder_id, b_amount = amount, b_is_active = True\<rparr>]\<rparr>"

text \<open>
  The route \<open>place_bid_on_artwork\<close> at the instant \<open>now\<close>, for the user \<open>user_id\<close> of the
  session and the \<open>amount\<close> of the request body. Every error return leaves without a
  commit, so the rows it touched before are not kept. The message of the last rejection
  also quotes the threshold.
\<close>

definition place_bid_on_artwork :: "db \<Rightarrow> nat \<Rightarrow> nat \<Rightarrow> nat \<Rightarrow> rat option \<Rightarrow> error + db" where
  "place_bid_on_artwork s now user_id artwork_id amount =
     (case amount of
        None \<Rightarrow> Inl (HTTP 400 ''Bid amount required'')
      | Some bid_value \<Rightarrow>
     (case find (\<lambda>a. au_artwork_id a = artwork_id \<and> au_status a = Open) (auctions s) of
        None \<Rightarrow> Inl (HTTP 400 ''No active auction for this artwork'')
      | Some auction \<Rightarrow>
          if (case au_end_time auction of None \<Rightarrow> False | Some auction_end \<Rightarrow> auction_end \<le> now)
          then Inl (HTTP 400 ''Auction has already ended'')
          else if au_seller_id auction = user_id
          then Inl (HTTP 400 ''Cannot bid on your own artwork'')
          else
            (case find_active_by_bidder s (au_id auction) user_id of
               Some existing_bid \<Rightarrow>
                 (let s1 = s\<lparr>bids := map (\<lambda>b. if b_auction_id b = au_id auction
                                                  \<and> b_bidder_id b = user_id
                                                  \<and> b_id b \<noteq> b_id existing_bid \<and> b_is_active b
                                               then b\<lparr>b_is_active := False\<rparr> else b) (bids s)\<rparr>;
                      additional = bid_value - b_amount existing_bid
                  in if additional \<le> 0
                     then Inl (HTTP 400 ''New bid must be higher than current bid'')
                     else if get_available_balance s1 user_id < additional
                     then Inl (HTTP 400 ''Insufficient balance'')
                     else Inr (insert_txn
                                 (set_bid_amount (hold s1 user_id additional)
                                    (b_id existing_bid) bid_value)
                                 user_id Bid_increase additional Pending ''Bid increased''
                                 (Some artwork_id)))
             | None \<Rightarrow>
                 if get_available_balance s user_id < bid_value
                 then Inl (HTTP 400 ''Insufficient balance'')
                 else if bid_value \<le> min_bid s auction
                 then Inl (HTTP 400 ''Bid must exceed'')
                 else
                   (let s1 = s\<lparr>bids := map (deactivate_bidder (au_id auction) user_id) (bids s)\<rparr>;
                        s2 = hold s1 user_id bid_value;
                        s3 = insert_bid s2 (au_id auction) user_id bid_value
                    in Inr (insert_txn s3 user_id Bid bid_value Pending ''Bid placed''
                              (Some artwork_id))))))"

text \<open>
  \<open>BidService.place_bid\<close>. It reads the auction's status and never its \<open>end_time\<close>, so the
  clock is no argument. All its checks come before its first write.
\<close>

definition BidService_place_bid :: "db \<Rightarrow> nat \<Rightarrow> nat \<Rightarrow> rat \<Rightarrow> error + db" where
  "BidService_place_bid s auction_id bidder_id amount =
     (case find (\<lambda>a. au_id a = auction_id) (auctions s) of
        None \<Rightarrow> Inl (NotFoundError ''Auction not open'')
      | Some auction \<Rightarrow>
          if au_status auction \<noteq> Open then Inl (NotFoundError ''Auction not open'')
          else
            (case artworks s (au_artwork_id auction) of
               None \<Rightarrow> Inl (NotFoundError ''Artwork not found'')
             | Some artwork \<Rightarrow>
                 if ar_owner_id artwork = bidder_id
                 then Inl (PermissionError ''Cannot bid on your own auction'')
                 else if amount \<le> min_bid s auction
                 then Inl (ValidationError ''Bid must exceed current price'')
                 else if get_available_balance s bidder_id < amount
                 then Inl (ValidationError ''Insufficient balance'')
                 else
                   (case find_active_by_bidder s auction_id bidder_id of
                      Some existing_bid \<Rightarrow>
                        (let additional = amount - b_amount existing_bid
                         in if additional \<le> 0
                            then Inl (ValidationError ''New bid must be higher than current bid'')
                            else Inr (set_bid_amount
                                        (BalanceRepository_update s bidder_id
                                           (Some (- additional)) (Some additional))
                                        (b_id existing_bid) amount))
                    | None \<Rightarrow>
                        Inr (insert_bid
                               (BalanceRepository_update s bidder_id (Some (- amount)) (Some amount))
                               auction_id bidder_id amount))))"

text \<open>\<open>BidService.update_bid\<close>.\<close>

definition BidService_update_bid :: "db \<Rightarrow> nat \<Rightarrow> nat \<Rightarrow> rat \<Rightarrow> error + db" where
  "BidService_update_bid s bid_id user_id new_amount =
     (case find (\<lambda>b. b_id b = bid_id) (bids s) of
        None \<Rightarrow> Inl (NotFoundError ''Bid not found'')
      | Some bid \<Rightarrow>
          if b_bidder_id bid \<noteq> user_id
          then Inl (PermissionError ''You can only update your own bids'')
          else
            (case find (\<lambda>a. au_id a = b_auction_id bid) (auctions s) of
               None \<Rightarrow> Inl (NotFoundError ''Auction not open'')
             | Some auction \<Rightarrow>
                 if au_status auction \<noteq> Open then Inl (NotFoundError ''Auction not open'')
                 else if new_amount \<le> b_amount bid
                 then Inl (ValidationError ''New bid must be higher than current bid'')
                 else
                   (let additional = new_amount - b_amount bid
                    in if get_available_balance s user_id < additional
                       then Inl (ValidationError ''Insufficient balance'')
                       else Inr (set_bid_amount
                                   (BalanceRepository_update s user_id
                                      (Some (- additional)) (Some additional))
                                   bid_id new_amount))))"

section \<open>Example databases\<close>

text \<open>
  One open auction (id 1) of artwork 10, sold by user 1 from a start price of 100 and ending
  at instant 50. User 2 deposited 250 and bid 200, user 3 deposited 500, the seller
  deposited 100.
\<close>

definition sale_auction :: auction where
  "sale_auction =
     \<lparr>au_id = 1, au_artwork_id = 10, au_seller_id = 1, au_start_price = 100,
      au_reserve_price = None, au_end_time = Some 50, au_status = Open, au_winner_id = None\<rparr>"

definition sale_example :: db where
  "sale_example =
     \<lparr>auctions = [sale_auction],
      artworks = [10 \<mapsto> \<lparr>ar_owner_id = 1, ar_is_listed = True, ar_listing_type = Some Auction\<rparr>],
      bids = [\<lparr>b_id = 1, b_auction_id = 1, b_bidder_id = 2, b_amount = 200, b_is_active = True\<rparr>],
      balances = [1 \<mapsto> \<lparr>available_balance = 100, pending_balance = 0\<rparr>,
                  2 \<mapsto> \<lparr>available_balance = 50, pending_balance = 200\<rparr>,
                  3 \<mapsto> \<lparr>available_balance = 500, pending_balance = 0\<rparr>],
      transactions = [\<lparr>t_user_id = 2, t_type = Bid, t_amount = 200, t_status = Pending,
                       t_description = ''Bid placed'', t_artwork_id = Some 10\<rparr>]\<rparr>"

text \<open>The same database after the seller has called the close route once, and twice.\<close>

definition settled_once :: db where
  "settled_once = db_after sale_example (close_auction sale_example 1 1)"

definition settled_twice :: db where
  "settled_twice = db_after settled_once (close_auction settled_once 1 1)"

text \<open>The same auction with a reserve price of 300 above the only bid.\<close>

definition reserve_auction :: auction where
  "reserve_auction = sale_auction\<lparr>au_reserve_price := Some 300\<rparr>"

definition reserve_example :: db where
  "reserve_example = sale_example\<lparr>auctions := [reserve_auction]\<rparr>"

text \<open>The same auction before anybody has bid.\<close>

definition fresh_example :: db where
  "fresh_example =
     sale_example\<lparr>bids := [], transactions := [],
       balances := [1 \<mapsto> \<lparr>available_balance = 100, pending_balance = 0\<rparr>,
                    2 \<mapsto> \<lparr>available_balance = 250, pending_balance = 0\<rparr>,
                    3 \<mapsto> \<lparr>available_balance = 500, pending_balance = 0\<rparr>]\<rparr>"

text \<open>The auction without bids, after it was closed.\<close>

definition closed_example :: db where
  "closed_example = fresh_example\<lparr>auctions := [sale_auction\<lparr>au_status := Closed\<rparr>]\<rparr>"

text \<open>
  A second expired auction (id 2) whose row carries no seller and whose artwork 20 does not
  exist, so that settling it raises.
\<close>

definition broken_auction :: auction where
  "broken_auction =
     \<lparr>au_id = 2, au_artwork_id = 20, au_seller_id = 0, au_start_price = 10,
      au_reserve_price = None, au_end_time = Some 55, au_status = Open, au_winner_id = None\<rparr>"

definition batch_example :: db where
  "batch_example = sale_example\<lparr>auctions := [sale_auction, broken_auction]\<rparr>"

text \<open>
  The sold auction while it is running, with user 3 leading at 300 and user 2 second at 200.
\<close>

definition raise_example :: db where
  "raise_example =
     sale_example\<lparr>
       bids := [\<lparr>b_id = 1, b_auction_id = 1, b_bidder_id = 2, b_amount = 200, b_is_active = True\<rparr>,
                \<lparr>b_id = 2, b_auction_id = 1, b_bidder_id = 3, b_amount = 300, b_is_active = True\<rparr>],
       balances := [1 \<mapsto> \<lparr>available_balance = 100, pending_balance = 0\<rparr>,
                    2 \<mapsto> \<lparr>available_balance = 50, pending_balance = 200\<rparr>,
                    3 \<mapsto> \<lparr>available_balance = 200, pending_balance = 300\<rparr>]\<rparr>"

section \<open>The code on the example databases\<close>

lemmas settle_defs = close_auction_def app_process_ended_auction_def resolve_seller_def
  find_winning_bid_def active_bids_def reserve_not_met_def truthy_id_def truthy_amount_def
  close_row_def app_successful_sale_def app_refund_losing_bidders_def set_artwork_def
  flip_pending_def insert_txn_def refund_each_def group_by_bidder_def refund_bidder_def
  deactivate_bidder_def PLATFORM_FEE_RATE_def db_after_def Let_def
  process_ended_auction_def process_successful_sale_def process_reserve_not_met_def
  BalanceRepository_update_def

lemmas job_defs = process_ended_auctions_job_def process_ended_auctions_def ended_auctions_def

lemmas bid_defs = place_bid_on_artwork_def BidService_place_bid_def BidService_update_bid_def
  min_bid_def current_bid_def active_bids_def get_available_balance_def
  find_active_by_bidder_def BalanceRepository_update_def insert_bid_def hold_def
  set_bid_amount_def insert_txn_def deactivate_bidder_def Let_def

lemmas example_defs = sale_example_def sale_auction_def settled_once_def settled_twice_def
  reserve_auction_def reserve_example_def fresh_example_def closed_example_def
  broken_auction_def batch_example_def raise_example_def

text \<open>
  C1 (settlement is idempotent): the close route does not look at the status of the auction
  it settles. On the example the seller closes the sold auction a second time; the call
  succeeds again, pays the seller the proceeds of 195 a second time (295, then 490) and
  inserts the purchase and sale transactions a second time (3 rows, then 5).
\<close>

theorem close_auction_twice_pays_twice:
  "close_auction sale_example 1 1 = Inr settled_once \<and>
   close_auction settled_once 1 1 = Inr settled_twice \<and>
   balances settled_once 1 = Some \<lparr>available_balance = 295, pending_balance = 0\<rparr> \<and>
   balances settled_twice 1 = Some \<lparr>available_balance = 490, pending_balance = 0\<rparr> \<and>
   length (transactions settled_once) = 3 \<and>
   length (transactions settled_twice) = 5"
  by (simp add: settle_defs example_defs)

text \<open>
  C2 (money conservation): the background job settles the example through
  \<open>AuctionService\<close>, which hands the new balances to an update that adds them. The
  winner's 200 stay pending and the seller goes from 100 to 395, so the balances of the two
  users sum to 350 before and to 645 after, with a fee of 5.
\<close>

theorem scheduler_sale_breaks_conservation:
  "snd (process_ended_auctions_job sale_example 60) = 1 \<and>
   balances sale_example 1 = Some \<lparr>available_balance = 100, pending_balance = 0\<rparr> \<and>
   balances sale_example 2 = Some \<lparr>available_balance = 50, pending_balance = 200\<rparr> \<and>
   balances (fst (process_ended_auctions_job sale_example 60)) 1 =
     Some \<lparr>available_balance = 395, pending_balance = 0\<rparr> \<and>
   balances (fst (process_ended_auctions_job sale_example 60)) 2 =
     Some \<lparr>available_balance = 50, pending_balance = 200\<rparr> \<and>
   map au_winner_id (auctions (fst (process_ended_auctions_job sale_example 60))) = [Some 2]"
  by (simp add: settle_defs example_defs job_defs)

text \<open>
  C4 (failure isolation in the batch): the job finds the two expired auctions of the
  example, settles the first, fails on the second and rolls back. The rollback also drops
  the settlement of the first: the database after the run is the one before it, both
  auctions still open, while the run counts one processed auction. The route of app.py
  behaves the same.
\<close>

theorem batch_failure_discards_earlier_settlement:
  "ended_auctions batch_example 60 = [sale_auction, broken_auction] \<and>
   map au_status (auctions (db_after batch_example
                              (process_ended_auction batch_example sale_auction))) =
     [Closed, Open] \<and>
   process_ended_auction batch_example broken_auction =
     Inl (NotFoundError ''Artwork not found'') \<and>
   process_ended_auctions_job batch_example 60 = (batch_example, 1) \<and>
   process_ended_auctions batch_example 60 = (batch_example, 1) \<and>
   map au_status (auctions (fst (process_ended_auctions_job batch_example 60))) = [Open, Open]"
  by (simp add: settle_defs example_defs job_defs)

text \<open>
  The same holds for every batch and every way of settling: when the last auction of a
  batch fails, the run commits nothing of what it settled before.
\<close>

lemma process_batch_last_failure:
  assumes "\<And>working. \<exists>exc. settle working auction = Inl exc"
  shows "fst (process_batch settle committed working (earlier @ [auction]) n) = committed"
proof (induction earlier arbitrary: working n)
  case Nil
  from assms [of working] obtain exc where "settle working auction = Inl exc" by blast
  then show ?case by simp
next
  case (Cons a earlier)
  then show ?case by (cases "settle working a") simp_all
qed

text \<open>
  C5 (no bid on an ended auction): at instant 60 the example auction, which ended at 50,
  is still open and waits for the job. The route rejects a bid of 250 by user 3;
  \<open>BidService.place_bid\<close> accepts it, creates the bid and holds the 250.
\<close>

theorem BidService_place_bid_after_end_time:
  "ended_auctions sale_example 60 = [sale_auction] \<and>
   place_bid_on_artwork sale_example 60 3 10 (Some 250) =
     Inl (HTTP 400 ''Auction has already ended'') \<and>
   map_sum id (\<lambda>s. (map b_amount (active_bids s 1), balances s 3))
     (BidService_place_bid sale_example 1 3 250) =
   Inr ([200, 250], Some \<lparr>available_balance = 250, pending_balance = 250\<rparr>)"
  by (simp add: example_defs ended_auctions_def bid_defs)

text \<open>
  C8 (the winner's pending bid transactions are completed on every path): after the
  background job has sold the example, the winner's bid transaction is still pending;
  after the route of app.py it is completed.
\<close>

theorem scheduler_sale_leaves_bid_transaction_pending:
  "map (\<lambda>t. (t_user_id t, t_type t, t_status t))
     (transactions (fst (process_ended_auctions_job sale_example 60))) =
   [(2, Bid, Pending), (2, Purchase, Completed), (1, Sale, Completed)] \<and>
   map (\<lambda>t. (t_user_id t, t_type t, t_status t))
     (transactions (fst (process_ended_auctions sale_example 60))) =
   [(2, Bid, Completed), (2, Purchase, Completed), (1, Sale, Completed)]"
  by (simp add: settle_defs example_defs job_defs)

section \<open>Properties of settlement\<close>

lemma refund_bidder_fields:
  "auctions (refund_bidder s a art u t d) = auctions s"
  "artworks (refund_bidder s a art u t d) = artworks s"
  "bids (refund_bidder s a art u t d) = map (deactivate_bidder a u) (bids s)"
  "balances (refund_bidder s a art u t d) =
     (balances s)(u \<mapsto>
        (case balances s u of
           Some bal \<Rightarrow> \<lparr>available_balance = available_balance bal + t,
                        pending_balance = max 0 (pending_balance bal - t)\<rparr>
         | None \<Rightarrow> \<lparr>available_balance = t, pending_balance = 0\<rparr>))"
  by (simp_all add: refund_bidder_def insert_txn_def Let_def split: option.splits)

lemma refund_each_simps:
  "refund_each s a art d [] = s"
  "refund_each s a art d ((u, t) # rows) = refund_each (refund_bidder s a art u t d) a art d rows"
  by (simp_all add: refund_each_def)

lemma refund_each_frame:
  "auctions (refund_each s a art d rows) = auctions s \<and>
   artworks (refund_each s a art d rows) = artworks s"
  by (induction rows arbitrary: s) (auto simp: refund_each_simps refund_bidder_fields)

lemma bids_refund_each:
  "bids (refund_each s a art d rows) =
     map (\<lambda>b. if b_auction_id b = a \<and> b_bidder_id b \<in> fst ` set rows \<and> b_is_active b
               then b\<lparr>b_is_active := False\<rparr> else b) (bids s)"
proof (induction rows arbitrary: s)
  case Nil
  show ?case by (simp add: refund_each_simps)
next
  case (Cons r rows)
  obtain u t where r: "r = (u, t)" by (cases r)
  show ?case
    unfolding r refund_each_simps Cons.IH refund_bidder_fields
    by (auto simp: deactivate_bidder_def)
qed

lemma balances_refund_each:
  "distinct (map fst rows) \<Longrightarrow>
   balances (refund_each s a art d rows) u =
     (case map_of rows u of
        None \<Rightarrow> balances s u
      | Some t \<Rightarrow>
          Some (case balances s u of
                  Some bal \<Rightarrow> \<lparr>available_balance = available_balance bal + t,
                               pending_balance = max 0 (pending_balance bal - t)\<rparr>
                | None \<Rightarrow> \<lparr>available_balance = t, pending_balance = 0\<rparr>))"
proof (induction rows arbitrary: s)
  case Nil
  show ?case by (simp add: refund_each_simps)
next
  case (Cons r rows)
  obtain v t where r: "r = (v, t)" by (cases r)
  from Cons.prems have d: "distinct (map fst rows)" and nin: "v \<notin> fst ` set rows"
    by (auto simp: r)
  have m: "map_of rows v = None" using nin by (simp add: map_of_eq_None_iff)
  show ?case
    unfolding r refund_each_simps Cons.IH [OF d] refund_bidder_fields
    using m by (auto split: option.splits)
qed

lemma group_by_bidder_keys:
  "map fst (group_by_bidder rows) = sort (remdups (map b_bidder_id rows))"
  by (simp add: group_by_bidder_def comp_def)

lemma group_by_bidder_distinct: "distinct (map fst (group_by_bidder rows))"
  by (simp add: group_by_bidder_keys)

lemma group_by_bidder_set: "fst ` set (group_by_bidder rows) = b_bidder_id ` set rows"
proof -
  have "fst ` set (group_by_bidder rows) = set (map fst (group_by_bidder rows))" by simp
  also have "\<dots> = b_bidder_id ` set rows" unfolding group_by_bidder_keys by simp
  finally show ?thesis .
qed

lemma group_by_bidder_map_of:
  "map_of (group_by_bidder rows) u =
     (if u \<in> b_bidder_id ` set rows
      then Some (sum_list (map b_amount (filter (\<lambda>b. b_bidder_id b = u) rows))) else None)"
  unfolding group_by_bidder_def map_of_map_restrict
  by (auto simp: restrict_map_def)

lemma set_artwork_frame:
  "auctions (set_artwork s art f) = auctions s"
  "bids (set_artwork s art f) = bids s"
  "balances (set_artwork s art f) = balances s"
  "transactions (set_artwork s art f) = transactions s"
  "artworks (set_artwork s art f) art = map_option f (artworks s art)"
  by (simp_all add: set_artwork_def split: option.splits)

lemma highest_None: "highest bs = None \<longleftrightarrow> bs = []"
  by (cases bs) (auto split: option.splits)

lemma highest_Some:
  "highest bs = Some wb \<Longrightarrow> wb \<in> set bs \<and> (\<forall>b\<in>set bs. b_amount b \<le> b_amount wb)"
  by (induction bs arbitrary: wb) (auto simp: highest_None split: option.splits if_splits)

lemma sql_max_eq:
  "x \<in> set xs \<Longrightarrow> \<forall>y\<in>set xs. y \<le> x \<Longrightarrow> sql_max xs = Some x"
proof (induction xs)
  case Nil
  then show ?case by simp
next
  case (Cons a xs)
  show ?case
  proof (cases "sql_max xs")
    case None
    then have "xs = []" by (cases xs) (auto split: option.splits)
    with Cons.prems show ?thesis by simp
  next
    case (Some m)
    have "m \<in> set xs" using Some
      by (induction xs arbitrary: m) (auto split: option.splits simp: max_def)
    with Cons.prems have mx: "m \<le> x" by simp
    show ?thesis
    proof (cases "x \<in> set xs")
      case True
      with Cons have "sql_max xs = Some x" by simp
      with Some Cons.prems show ?thesis by (simp add: max_def)
    next
      case False
      with Cons.prems have "a = x" by simp
      with Some mx show ?thesis by (simp add: max_def)
    qed
  qed
qed

lemma resolve_seller_Inr:
  "au_seller_id auction \<noteq> 0 \<or> artworks s (au_artwork_id auction) \<noteq> None \<Longrightarrow>
   \<exists>seller_id. resolve_seller s auction err = Inr seller_id"
  by (cases "au_seller_id auction = 0") (auto simp: resolve_seller_def)

lemma refund_all_outcome:
  fixes s2 :: db and a art :: nat and d :: string
  defines "s' \<equiv> refund_each s2 a art d (group_by_bidder (active_bids s2 a))"
  shows "auctions s' = auctions s2"
    and "artworks s' = artworks s2"
    and "active_bids s' a = []"
    and "balances s' u =
           (if u \<in> b_bidder_id ` set (active_bids s2 a)
            then Some (let total = sum_list (map b_amount (filter (\<lambda>b. b_bidder_id b = u)
                                      (active_bids s2 a)))
                       in case balances s2 u of
                            Some bal \<Rightarrow> \<lparr>available_balance = available_balance bal + total,
                                         pending_balance = max 0 (pending_balance bal - total)\<rparr>
                          | None \<Rightarrow> \<lparr>available_balance = total, pending_balance = 0\<rparr>)
            else balances s2 u)"
proof -
  show "auctions s' = auctions s2" "artworks s' = artworks s2"
    by (simp_all add: s'_def refund_each_frame)
  show "active_bids s' a = []"
    unfolding s'_def active_bids_def [of "refund_each s2 a art d _"] bids_refund_each
      group_by_bidder_set filter_empty_conv
  proof
    fix c
    assume "c \<in> set (map (\<lambda>b. if b_auction_id b = a
                                  \<and> b_bidder_id b \<in> b_bidder_id ` set (active_bids s2 a)
                                  \<and> b_is_active b
                               then b\<lparr>b_is_active := False\<rparr> else b) (bids s2))"
    then obtain b where b: "b \<in> set (bids s2)"
      and c: "c = (if b_auction_id b = a \<and> b_bidder_id b \<in> b_bidder_id ` set (active_bids s2 a)
                      \<and> b_is_active b
                   then b\<lparr>b_is_active := False\<rparr> else b)"
      by (auto simp only: set_map image_iff)
    show "\<not> (b_auction_id c = a \<and> b_is_active c)"
    proof (cases "b_auction_id b = a \<and> b_is_active b")
      case True
      with b have "b \<in> set (active_bids s2 a)" by (simp add: active_bids_def)
      then have "b_bidder_id b \<in> b_bidder_id ` set (active_bids s2 a)" by (rule imageI)
      with True c have "c = b\<lparr>b_is_active := False\<rparr>" by simp
      then show ?thesis by simp
    next
      case False
      with c have "c = b" by auto
      with False show ?thesis by simp
    qed
  qed
  show "balances s' u =
           (if u \<in> b_bidder_id ` set (active_bids s2 a)
            then Some (let total = sum_list (map b_amount (filter (\<lambda>b. b_bidder_id b = u)
                                      (active_bids s2 a)))
                       in case balances s2 u of
                            Some bal \<Rightarrow> \<lparr>available_balance = available_balance bal + total,
                                         pending_balance = max 0 (pending_balance bal - total)\<rparr>
                          | None \<Rightarrow> \<lparr>available_balance = total, pending_balance = 0\<rparr>)
            else balances s2 u)"
    unfolding s'_def balances_refund_each [OF group_by_bidder_distinct] group_by_bidder_map_of
    by (simp add: Let_def)
qed

text \<open>
  C3 (reserve enforcement): when the auction has a reserve price and its highest active bid
  is strictly below it, settlement, on the path of the background job and on the path of
  the routes alike, succeeds, closes the auction with no winner, delists the artwork and
  leaves its owner alone, leaves no active bid on the auction, and refunds every bidder who
  had an active bid on it, the highest bidder included: the bidder's available balance grows
  by the total of their active bids on this auction and the pending balance shrinks by it
  (stopping at 0, as the ledger's release does; a bidder without a balance row gets one
  holding the total). No other balance changes. Bid amounts are positive and user ids are
  not 0, as the database has them.
\<close>

theorem reserve_enforcement:
  assumes reserve: "au_reserve_price auction = Some r"
    and highest_bid: "find_winning_bid s (au_id auction) = Some wb"
    and below: "b_amount wb < r"
    and positive: "0 < b_amount wb"
    and bidder: "b_bidder_id wb \<noteq> 0"
    and seller: "au_seller_id auction \<noteq> 0 \<or> artworks s (au_artwork_id auction) \<noteq> None"
  shows "\<forall>settle\<in>{process_ended_auction, app_process_ended_auction}.
         \<exists>s'. settle s auction = Inr s' \<and>
           auctions s' = map (\<lambda>a. if au_id a = au_id auction
                                   then a\<lparr>au_status := Closed, au_winner_id := None\<rparr> else a)
                             (auctions s) \<and>
           (\<forall>ar. artworks s (au_artwork_id auction) = Some ar \<longrightarrow>
              (\<exists>ar'. artworks s' (au_artwork_id auction) = Some ar' \<and>
                 ar_owner_id ar' = ar_owner_id ar \<and> \<not> ar_is_listed ar')) \<and>
           active_bids s' (au_id auction) = [] \<and>
           (\<forall>u\<in>b_bidder_id ` set (active_bids s (au_id auction)).
              balances s' u =
                Some (let total = sum_list (map b_amount (filter (\<lambda>b. b_bidder_id b = u)
                                     (active_bids s (au_id auction))))
                      in case balances s u of
                           Some bal \<Rightarrow> \<lparr>available_balance = available_balance bal + total,
                                        pending_balance = max 0 (pending_balance bal - total)\<rparr>
                         | None \<Rightarrow> \<lparr>available_balance = total, pending_balance = 0\<rparr>)) \<and>
           (\<forall>u. u \<notin> b_bidder_id ` set (active_bids s (au_id auction)) \<longrightarrow>
              balances s' u = balances s u)"
proof -
  obtain sid where rs: "resolve_seller s auction (NotFoundError ''Artwork not found'') = Inr sid"
    using resolve_seller_Inr [OF seller] by blast
  obtain sid' where rs': "resolve_seller s auction (ValueError ''Artwork not found'') = Inr sid'"
    using resolve_seller_Inr [OF seller] by blast
  have nm: "reserve_not_met (Some wb) (Some r)"
    using below positive bidder by (simp add: reserve_not_met_def)
  define s1 where "s1 = s\<lparr>auctions := map (close_row (au_id auction) None) (auctions s)\<rparr>"
  define outcome where "outcome = (\<lambda>f d.
     refund_each (set_artwork s1 (au_artwork_id auction) f) (au_id auction) (au_artwork_id auction)
       d (group_by_bidder
            (active_bids (set_artwork s1 (au_artwork_id auction) f) (au_id auction))))"
  have run_a: "process_ended_auction s auction =
                 Inr (outcome (\<lambda>ar. ar\<lparr>ar_is_listed := False\<rparr>)
                        ''Reserve price not met - bid refunded'')"
    using rs nm reserve highest_bid
    by (simp add: process_ended_auction_def process_reserve_not_met_def Let_def truthy_id_def
        outcome_def s1_def)
  have run_b: "app_process_ended_auction s auction =
                 Inr (outcome (\<lambda>ar. ar\<lparr>ar_is_listed := False, ar_listing_type := None\<rparr>)
                        ''Reserve price not met - bid refunded'')"
    using rs' nm reserve highest_bid
    by (simp add: app_process_ended_auction_def Let_def outcome_def s1_def)
  have ab: "active_bids (set_artwork s1 (au_artwork_id auction) f) (au_id auction) =
            active_bids s (au_id auction)" for f
    by (simp add: active_bids_def set_artwork_frame s1_def)
  have a1: "auctions (outcome f d) =
              map (\<lambda>a. if au_id a = au_id auction
                        then a\<lparr>au_status := Closed, au_winner_id := None\<rparr> else a)
                  (auctions s)" for f d
    by (simp add: outcome_def refund_all_outcome set_artwork_frame s1_def close_row_def)
  have a2: "artworks (outcome f d) (au_artwork_id auction) =
              map_option f (artworks s (au_artwork_id auction))" for f d
    by (simp add: outcome_def refund_all_outcome set_artwork_frame s1_def)
  have a3: "active_bids (outcome f d) (au_id auction) = []" for f d
    by (simp add: outcome_def refund_all_outcome)
  have a4: "balances (outcome f d) u =
           (if u \<in> b_bidder_id ` set (active_bids s (au_id auction))
            then Some (let total = sum_list (map b_amount (filter (\<lambda>b. b_bidder_id b = u)
                                      (active_bids s (au_id auction))))
                       in case balances s u of
                            Some bal \<Rightarrow> \<lparr>available_balance = available_balance bal + total,
                                         pending_balance = max 0 (pending_balance bal - total)\<rparr>
                          | None \<Rightarrow> \<lparr>available_balance = total, pending_balance = 0\<rparr>)
            else balances s u)" for f d u
  proof -
    have bs: "balances (set_artwork s1 (au_artwork_id auction) f) = balances s"
      by (simp add: set_artwork_frame s1_def)
    show ?thesis
      unfolding outcome_def refund_all_outcome(4) unfolding ab bs ..
  qed
  have refunded: "\<forall>u\<in>b_bidder_id ` set (active_bids s (au_id auction)).
              balances (outcome f d) u =
                Some (let total = sum_list (map b_amount (filter (\<lambda>b. b_bidder_id b = u)
                                     (active_bids s (au_id auction))))
                      in case balances s u of
                           Some bal \<Rightarrow> \<lparr>available_balance = available_balance bal + total,
                                        pending_balance = max 0 (pending_balance bal - total)\<rparr>
                         | None \<Rightarrow> \<lparr>available_balance = total, pending_balance = 0\<rparr>)" for f d
  proof
    fix u assume "u \<in> b_bidder_id ` set (active_bids s (au_id auction))"
    then show "balances (outcome f d) u =
                Some (let total = sum_list (map b_amount (filter (\<lambda>b. b_bidder_id b = u)
                                     (active_bids s (au_id auction))))
                      in case balances s u of
                           Some bal \<Rightarrow> \<lparr>available_balance = available_balance bal + total,
                                        pending_balance = max 0 (pending_balance bal - total)\<rparr>
                         | None \<Rightarrow> \<lparr>available_balance = total, pending_balance = 0\<rparr>)"
      unfolding a4 by (simp only: if_True)
  qed
  have others: "\<forall>u. u \<notin> b_bidder_id ` set (active_bids s (au_id auction)) \<longrightarrow>
              balances (outcome f d) u = balances s u" for f d
  proof (intro allI impI)
    fix u assume "u \<notin> b_bidder_id ` set (active_bids s (au_id auction))"
    then show "balances (outcome f d) u = balances s u"
      unfolding a4 by (simp only: if_False)
  qed
  have keep_a: "\<forall>ar. artworks s (au_artwork_id auction) = Some ar \<longrightarrow>
              (\<exists>ar'. artworks (outcome (\<lambda>ar. ar\<lparr>ar_is_listed := False\<rparr>) d) (au_artwork_id auction)
                       = Some ar' \<and>
                 ar_owner_id ar' = ar_owner_id ar \<and> \<not> ar_is_listed ar')" for d
    by (simp add: a2)
  have keep_b: "\<forall>ar. artworks s (au_artwork_id auction) = Some ar \<longrightarrow>
              (\<exists>ar'. artworks (outcome (\<lambda>ar. ar\<lparr>ar_is_listed := False, ar_listing_type := None\<rparr>) d)
                         (au_artwork_id auction) = Some ar' \<and>
                 ar_owner_id ar' = ar_owner_id ar \<and> \<not> ar_is_listed ar')" for d
    by (simp add: a2)
  show ?thesis
  proof (intro ballI)
    fix settle assume "settle \<in> {process_ended_auction, app_process_ended_auction}"
    then consider "settle = process_ended_auction" | "settle = app_process_ended_auction"
      by blast
    then show "\<exists>s'. settle s auction = Inr s' \<and>
           auctions s' = map (\<lambda>a. if au_id a = au_id auction
                                   then a\<lparr>au_status := Closed, au_winner_id := None\<rparr> else a)
                             (auctions s) \<and>
           (\<forall>ar. artworks s (au_artwork_id auction) = Some ar \<longrightarrow>
              (\<exists>ar'. artworks s' (au_artwork_id auction) = Some ar' \<and>
                 ar_owner_id ar' = ar_owner_id ar \<and> \<not> ar_is_listed ar')) \<and>
           active_bids s' (au_id auction) = [] \<and>
           (\<forall>u\<in>b_bidder_id ` set (active_bids s (au_id auction)).
              balances s' u =
                Some (let total = sum_list (map b_amount (filter (\<lambda>b. b_bidder_id b = u)
                                     (active_bids s (au_id auction))))
                      in case balances s u of
                           Some bal \<Rightarrow> \<lparr>available_balance = available_balance bal + total,
                                        pending_balance = max 0 (pending_balance bal - total)\<rparr>
                         | None \<Rightarrow> \<lparr>available_balance = total, pending_balance = 0\<rparr>)) \<and>
           (\<forall>u. u \<notin> b_bidder_id ` set (active_bids s (au_id auction)) \<longrightarrow>
              balances s' u = balances s u)"
    proof cases
      case 1
      show ?thesis unfolding 1 run_a
        by (rule exI [of _ "outcome (\<lambda>ar. ar\<lparr>ar_is_listed := False\<rparr>)
                              ''Reserve price not met - bid refunded''"])
          (intro conjI, (rule refl a1 a3 keep_a refunded others)+)
    next
      case 2
      show ?thesis unfolding 2 run_b
        by (rule exI [of _ "outcome (\<lambda>ar. ar\<lparr>ar_is_listed := False, ar_listing_type := None\<rparr>)
                              ''Reserve price not met - bid refunded''"])
          (intro conjI, (rule refl a1 a3 keep_b refunded others)+)
    qed
  qed
qed

theorem reserve_enforcement_witness:
  "au_reserve_price reserve_auction = Some 300 \<and>
   map b_amount (active_bids reserve_example 1) = [200] \<and>
   balances reserve_example 2 = Some \<lparr>available_balance = 50, pending_balance = 200\<rparr> \<and>
   (\<exists>s'. process_ended_auction reserve_example reserve_auction = Inr s' \<and>
      map au_status (auctions s') = [Closed] \<and>
      map au_winner_id (auctions s') = [None] \<and>
      active_bids s' 1 = [] \<and>
      balances s' 2 = Some \<lparr>available_balance = 250, pending_balance = 0\<rparr> \<and>
      balances s' 1 = balances reserve_example 1) \<and>
   (\<exists>s'. app_process_ended_auction reserve_example reserve_auction = Inr s' \<and>
      map au_status (auctions s') = [Closed] \<and>
      map au_winner_id (auctions s') = [None] \<and>
      active_bids s' 1 = [] \<and>
      balances s' 2 = Some \<lparr>available_balance = 250, pending_balance = 0\<rparr> \<and>
      balances s' 1 = balances reserve_example 1)"
proof -
  let ?wb = "\<lparr>b_id = 1, b_auction_id = 1, b_bidder_id = 2, b_amount = 200, b_is_active = True\<rparr>"
  have id: "au_id reserve_auction = 1" "au_artwork_id reserve_auction = 10"
    by (simp_all add: example_defs)
  have ab: "active_bids reserve_example 1 = [?wb]"
    by (simp add: example_defs active_bids_def)
  have h1: "au_reserve_price reserve_auction = Some 300" by (simp add: example_defs)
  have h2: "find_winning_bid reserve_example (au_id reserve_auction) = Some ?wb"
    by (simp add: id find_winning_bid_def example_defs active_bids_def)
  have h3: "b_amount ?wb < 300" and h4: "0 < b_amount ?wb" and h5: "b_bidder_id ?wb \<noteq> 0"
    by simp_all
  have h6: "au_seller_id reserve_auction \<noteq> 0 \<or>
            artworks reserve_example (au_artwork_id reserve_auction) \<noteq> None"
    by (simp add: example_defs)
  have bal: "balances reserve_example 2 = Some \<lparr>available_balance = 50, pending_balance = 200\<rparr>"
    by (simp add: example_defs)
  note th = reserve_enforcement [OF h1 h2 h3 h4 h5 h6, unfolded id ab]
  have concl: "\<exists>s'. settle reserve_example reserve_auction = Inr s' \<and>
      map au_status (auctions s') = [Closed] \<and>
      map au_winner_id (auctions s') = [None] \<and>
      active_bids s' 1 = [] \<and>
      balances s' 2 = Some \<lparr>available_balance = 250, pending_balance = 0\<rparr> \<and>
      balances s' 1 = balances reserve_example 1"
    if "settle \<in> {process_ended_auction, app_process_ended_auction}" for settle
  proof -
    from th that obtain s' where
      run: "settle reserve_example reserve_auction = Inr s'"
      and au: "auctions s' = map (\<lambda>a. if au_id a = 1
                                   then a\<lparr>au_status := Closed, au_winner_id := None\<rparr> else a)
                             (auctions reserve_example)"
      and act: "active_bids s' 1 = []"
      and refund: "\<forall>u\<in>b_bidder_id ` set [?wb].
              balances s' u =
                Some (let total = sum_list (map b_amount (filter (\<lambda>b. b_bidder_id b = u) [?wb]))
                      in case balances reserve_example u of
                           Some bal \<Rightarrow> \<lparr>available_balance = available_balance bal + total,
                                        pending_balance = max 0 (pending_balance bal - total)\<rparr>
                         | None \<Rightarrow> \<lparr>available_balance = total, pending_balance = 0\<rparr>)"
      and others: "\<forall>u. u \<notin> b_bidder_id ` set [?wb] \<longrightarrow> balances s' u = balances reserve_example u"
      by blast
    from refund have b2: "balances s' 2 = Some \<lparr>available_balance = 250, pending_balance = 0\<rparr>"
      by (simp add: bal)
    from others have b1: "balances s' 1 = balances reserve_example 1" by simp
    have au': "map au_status (auctions s') = [Closed]" "map au_winner_id (auctions s') = [None]"
      by (simp_all add: au example_defs)
    show ?thesis using run au' act b2 b1 by simp
  qed
  show ?thesis
    using h1 ab bal concl [of process_ended_auction] concl [of app_process_ended_auction]
    by simp
qed

lemma refund_losers_bids:
  "bids (refund_each s a art d
           (group_by_bidder (filter (\<lambda>b. b_bidder_id b \<noteq> w) (active_bids s a)))) =
   map (\<lambda>b. if b_auction_id b = a \<and> b_bidder_id b \<noteq> w \<and> b_is_active b
             then b\<lparr>b_is_active := False\<rparr> else b) (bids s)"
proof -
  have eq: "(b_auction_id x = a \<and>
             b_bidder_id x \<in> b_bidder_id ` set (filter (\<lambda>b. b_bidder_id b \<noteq> w) (active_bids s a)) \<and>
             b_is_active x) =
            (b_auction_id x = a \<and> b_bidder_id x \<noteq> w \<and> b_is_active x)"
    if "x \<in> set (bids s)" for x
  proof (cases "b_auction_id x = a \<and> b_is_active x")
    case True
    then have "x \<in> set (active_bids s a)" using that by (simp add: active_bids_def)
    then show ?thesis using True by auto
  next
    case False
    then show ?thesis by blast
  qed
  show ?thesis
    unfolding bids_refund_each group_by_bidder_set
  proof (rule map_cong [OF refl])
    fix x assume "x \<in> set (bids s)"
    from eq [OF this]
    show "(if b_auction_id x = a \<and>
              b_bidder_id x \<in> b_bidder_id ` set (filter (\<lambda>b. b_bidder_id b \<noteq> w) (active_bids s a)) \<and>
              b_is_active x
           then x\<lparr>b_is_active := False\<rparr> else x) =
          (if b_auction_id x = a \<and> b_bidder_id x \<noteq> w \<and> b_is_active x
           then x\<lparr>b_is_active := False\<rparr> else x)"
      by (simp only:)
  qed
qed

lemma sale_bids_outcome:
  assumes hi: "highest (active_bids s a) = Some wb"
    and bs: "bids s' = map (\<lambda>b. if b_auction_id b = a \<and> b_bidder_id b \<noteq> b_bidder_id wb
                                   \<and> b_is_active b
                                then b\<lparr>b_is_active := False\<rparr> else b) (bids s)"
  shows "wb \<in> set (active_bids s' a) \<and> current_bid s' a = Some (b_amount wb)"
proof -
  define f where "f = (\<lambda>b::bid. if b_auction_id b = a \<and> b_bidder_id b \<noteq> b_bidder_id wb
                                   \<and> b_is_active b
                                then b\<lparr>b_is_active := False\<rparr> else b)"
  have bs': "bids s' = map f (bids s)" using bs by (simp add: f_def)
  from highest_Some [OF hi]
  have win: "wb \<in> set (active_bids s a)"
    and top: "\<forall>b\<in>set (active_bids s a). b_amount b \<le> b_amount wb" by auto
  have keep: "f b = b" if "b_is_active (f b)" for b
    using that by (cases "b_auction_id b = a \<and> b_bidder_id b \<noteq> b_bidder_id wb \<and> b_is_active b")
      (simp_all add: f_def)
  have sub: "c \<in> set (active_bids s a)" if "c \<in> set (active_bids s' a)" for c
  proof -
    from that obtain b where b: "b \<in> set (bids s)" "c = f b" "b_auction_id c = a" "b_is_active c"
      by (auto simp: active_bids_def bs')
    with keep have "c = b" by simp
    with b show ?thesis by (simp add: active_bids_def)
  qed
  have fwb: "f wb = wb" by (simp add: f_def)
  have still: "wb \<in> set (active_bids s' a)"
  proof -
    from win have "wb \<in> set (bids s)" "b_auction_id wb = a" "b_is_active wb"
      by (simp_all add: active_bids_def)
    then have "f wb \<in> set (bids s')" by (simp add: bs')
    with fwb \<open>b_auction_id wb = a\<close> \<open>b_is_active wb\<close> show ?thesis
      by (simp add: active_bids_def)
  qed
  have "sql_max (map b_amount (active_bids s' a)) = Some (b_amount wb)"
  proof (rule sql_max_eq)
    show "b_amount wb \<in> set (map b_amount (active_bids s' a))" using still by simp
    show "\<forall>y\<in>set (map b_amount (active_bids s' a)). y \<le> b_amount wb"
      using sub top by auto
  qed
  with still show ?thesis by (simp add: current_bid_def)
qed



lemma BalanceRepository_update_frame:
  "auctions (BalanceRepository_update s u x y) = auctions s"
  "artworks (BalanceRepository_update s u x y) = artworks s"
  "bids (BalanceRepository_update s u x y) = bids s"
  "transactions (BalanceRepository_update s u x y) = transactions s"
  by (simp_all add: BalanceRepository_update_def split: option.splits)

lemma insert_txn_frame:
  "auctions (insert_txn s u ty x st d art) = auctions s"
  "artworks (insert_txn s u ty x st d art) = artworks s"
  "bids (insert_txn s u ty x st d art) = bids s"
  "balances (insert_txn s u ty x st d art) = balances s"
  by (simp_all add: insert_txn_def)

lemma process_successful_sale_bids:
  "bids (process_successful_sale s a art w x seller) =
     map (\<lambda>b. if b_auction_id b = a \<and> b_bidder_id b \<noteq> w \<and> b_is_active b
               then b\<lparr>b_is_active := False\<rparr> else b) (bids s)"
  unfolding process_successful_sale_def Let_def refund_losers_bids
  by (simp add: insert_txn_frame BalanceRepository_update_frame set_artwork_frame
      split: option.splits)

lemma process_successful_sale_auctions:
  "auctions (process_successful_sale s a art w x seller) = auctions s"
  unfolding process_successful_sale_def Let_def
  by (simp add: refund_each_frame insert_txn_frame BalanceRepository_update_frame
      set_artwork_frame split: option.splits)

lemma app_successful_sale_frame:
  "bids (app_successful_sale s art w x seller) = bids s"
  "auctions (app_successful_sale s art w x seller) = auctions s"
  unfolding app_successful_sale_def Let_def
  by (simp_all add: insert_txn_frame set_artwork_frame split: option.splits)

lemma app_refund_losing_bidders_bids:
  "w \<noteq> 0 \<Longrightarrow>
   bids (app_refund_losing_bidders s a art (Some w)) =
     map (\<lambda>b. if b_auction_id b = a \<and> b_bidder_id b \<noteq> w \<and> b_is_active b
               then b\<lparr>b_is_active := False\<rparr> else b) (bids s)"
  by (simp add: app_refund_losing_bidders_def refund_losers_bids)

lemma app_refund_losing_bidders_auctions:
  "auctions (app_refund_losing_bidders s a art fw) = auctions s"
  by (simp add: app_refund_losing_bidders_def refund_each_frame split: option.splits)



text \<open>
  C10 (the winner's bid stays active): when an auction is sold, on the path of the background
  job and on the path of the routes alike, settlement succeeds, closes the auction with the
  highest bidder as winner, and changes exactly the active bids of the other bidders on this
  auction, which it deactivates. The winning bid row is unchanged and still active, and the
  current highest active bid of the closed auction is still the winning amount.
\<close>

theorem winner_bid_stays_active:
  assumes wbid: "find_winning_bid s (au_id auction) = Some wb"
    and bidder: "b_bidder_id wb \<noteq> 0"
    and amount: "b_amount wb \<noteq> 0"
    and met: "case au_reserve_price auction of None \<Rightarrow> True | Some r \<Rightarrow> r \<le> b_amount wb"
    and seller: "au_seller_id auction \<noteq> 0 \<or> artworks s (au_artwork_id auction) \<noteq> None"
  shows "\<forall>settle\<in>{process_ended_auction, app_process_ended_auction}.
           \<exists>s'. settle s auction = Inr s' \<and>
             auctions s' = map (\<lambda>a. if au_id a = au_id auction
                                      then a\<lparr>au_status := Closed,
                                             au_winner_id := Some (b_bidder_id wb)\<rparr>
                                      else a) (auctions s) \<and>
             bids s' = map (\<lambda>b. if b_auction_id b = au_id auction
                                     \<and> b_bidder_id b \<noteq> b_bidder_id wb \<and> b_is_active b
                                  then b\<lparr>b_is_active := False\<rparr> else b) (bids s) \<and>
             wb \<in> set (active_bids s' (au_id auction)) \<and>
             current_bid s' (au_id auction) = Some (b_amount wb)"
proof -
  have nm: "\<not> reserve_not_met (Some wb) (au_reserve_price auction)"
    using met by (auto simp: reserve_not_met_def split: option.splits)
  have hi: "highest (active_bids s (au_id auction)) = Some wb"
    using wbid by (simp add: find_winning_bid_def)
  obtain sid where rs: "resolve_seller s auction (NotFoundError ''Artwork not found'') = Inr sid"
    using resolve_seller_Inr [OF seller] by blast
  obtain sid' where rs': "resolve_seller s auction (ValueError ''Artwork not found'') = Inr sid'"
    using resolve_seller_Inr [OF seller] by blast
  define s1 where
    "s1 = s\<lparr>auctions := map (close_row (au_id auction) (Some (b_bidder_id wb))) (auctions s)\<rparr>"
  define sa where
    "sa = process_successful_sale s1 (au_id auction) (au_artwork_id auction) (b_bidder_id wb)
            (b_amount wb) sid"
  define sb where
    "sb = app_refund_losing_bidders
            (app_successful_sale s1 (au_artwork_id auction) (b_bidder_id wb) (b_amount wb) sid')
            (au_id auction) (au_artwork_id auction) (Some (b_bidder_id wb))"
  have run_a: "process_ended_auction s auction = Inr sa"
    using rs nm wbid bidder amount
    by (simp add: process_ended_auction_def Let_def truthy_id_def truthy_amount_def sa_def s1_def)
  have run_b: "app_process_ended_auction s auction = Inr sb"
    using rs' nm wbid bidder amount
    by (simp add: app_process_ended_auction_def Let_def truthy_id_def truthy_amount_def
        sb_def s1_def)
  have bids_a: "bids sa = map (\<lambda>b. if b_auction_id b = au_id auction
                                     \<and> b_bidder_id b \<noteq> b_bidder_id wb \<and> b_is_active b
                                  then b\<lparr>b_is_active := False\<rparr> else b) (bids s)"
    by (simp add: sa_def process_successful_sale_bids s1_def)
  have bids_b: "bids sb = map (\<lambda>b. if b_auction_id b = au_id auction
                                     \<and> b_bidder_id b \<noteq> b_bidder_id wb \<and> b_is_active b
                                  then b\<lparr>b_is_active := False\<rparr> else b) (bids s)"
    using bidder
    by (simp add: sb_def app_refund_losing_bidders_bids app_successful_sale_frame s1_def)
  have au_a: "auctions sa = map (close_row (au_id auction) (Some (b_bidder_id wb))) (auctions s)"
    by (simp add: sa_def process_successful_sale_auctions s1_def)
  have au_b: "auctions sb = map (close_row (au_id auction) (Some (b_bidder_id wb))) (auctions s)"
    by (simp add: sb_def app_refund_losing_bidders_auctions app_successful_sale_frame s1_def)
  have cr: "close_row (au_id auction) (Some (b_bidder_id wb)) =
            (\<lambda>a. if au_id a = au_id auction
                  then a\<lparr>au_status := Closed, au_winner_id := Some (b_bidder_id wb)\<rparr> else a)"
    by (rule ext) (simp add: close_row_def)
  show ?thesis
    using run_a run_b bids_a bids_b au_a au_b
      sale_bids_outcome [OF hi bids_a] sale_bids_outcome [OF hi bids_b]
    unfolding cr by simp
qed

theorem winner_bid_stays_active_witness:
  "map b_amount (active_bids sale_example 1) = [200] \<and>
   (\<exists>s'. process_ended_auction sale_example sale_auction = Inr s' \<and>
      map au_status (auctions s') = [Closed] \<and>
      map b_is_active (bids s') = [True] \<and>
      current_bid s' 1 = Some 200) \<and>
   (\<exists>s'. app_process_ended_auction sale_example sale_auction = Inr s' \<and>
      map au_status (auctions s') = [Closed] \<and>
      map b_is_active (bids s') = [True] \<and>
      current_bid s' 1 = Some 200)"
proof -
  let ?wb = "\<lparr>b_id = 1, b_auction_id = 1, b_bidder_id = 2, b_amount = 200, b_is_active = True\<rparr>"
  have id: "au_id sale_auction = 1" by (simp add: example_defs)
  have ab: "active_bids sale_example 1 = [?wb]"
    by (simp add: example_defs active_bids_def)
  have h1: "find_winning_bid sale_example (au_id sale_auction) = Some ?wb"
    by (simp add: id find_winning_bid_def example_defs active_bids_def)
  have h2: "b_bidder_id ?wb \<noteq> 0" and h3: "b_amount ?wb \<noteq> 0" by simp_all
  have h4: "case au_reserve_price sale_auction of None \<Rightarrow> True | Some r \<Rightarrow> r \<le> b_amount ?wb"
    by (simp add: example_defs)
  have h5: "au_seller_id sale_auction \<noteq> 0 \<or>
            artworks sale_example (au_artwork_id sale_auction) \<noteq> None"
    by (simp add: example_defs)
  note th = winner_bid_stays_active [OF h1 h2 h3 h4 h5, unfolded id]
  have concl: "\<exists>s'. settle sale_example sale_auction = Inr s' \<and>
      map au_status (auctions s') = [Closed] \<and>
      map b_is_active (bids s') = [True] \<and>
      current_bid s' 1 = Some 200"
    if "settle \<in> {process_ended_auction, app_process_ended_auction}" for settle
  proof -
    from th that obtain s' where
      run: "settle sale_example sale_auction = Inr s'"
      and au: "auctions s' = map (\<lambda>a. if au_id a = 1
                                      then a\<lparr>au_status := Closed,
                                             au_winner_id := Some (b_bidder_id ?wb)\<rparr>
                                      else a) (auctions sale_example)"
      and bs: "bids s' = map (\<lambda>b. if b_auction_id b = 1
                                     \<and> b_bidder_id b \<noteq> b_bidder_id ?wb \<and> b_is_active b
                                  then b\<lparr>b_is_active := False\<rparr> else b) (bids sale_example)"
      and cb: "current_bid s' 1 = Some (b_amount ?wb)"
      by blast
    have "map au_status (auctions s') = [Closed]" by (simp add: au example_defs)
    moreover have "map b_is_active (bids s') = [True]" by (simp add: bs example_defs)
    ultimately show ?thesis using run cb by simp
  qed
  show ?thesis using ab concl [of process_ended_auction] concl [of app_process_ended_auction]
    by simp
qed

section \<open>Properties of bid admission\<close>

lemma find_active_by_bidder_Some:
  "find_active_by_bidder s a u = Some b \<Longrightarrow>
   b_auction_id b = a \<and> b_bidder_id b = u \<and> b_is_active b \<and> b \<in> set (bids s)"
  by (auto simp: find_active_by_bidder_def find_Some_iff)

lemma not_ended:
  "(case au_end_time auction of None \<Rightarrow> True | Some t \<Rightarrow> now < t) \<Longrightarrow>
   \<not> (case au_end_time auction of None \<Rightarrow> False | Some auction_end \<Rightarrow> auction_end \<le> now)"
  by (cases "au_end_time auction") auto

lemma hold_balances:
  "balances (hold s u x) =
     (balances s)(u \<mapsto>
        (case balances s u of
           None \<Rightarrow> \<lparr>available_balance = - x, pending_balance = x\<rparr>
         | Some bal \<Rightarrow> \<lparr>available_balance = available_balance bal - x,
                        pending_balance = pending_balance bal + x\<rparr>))"
  by (simp add: hold_def Let_def split: option.splits)

lemma set_bid_amount_balances: "balances (set_bid_amount s i x) = balances s"
  by (simp add: set_bid_amount_def)

lemma place_bid_on_artwork_raise:
  assumes auction: "find (\<lambda>a. au_artwork_id a = artwork_id \<and> au_status a = Open) (auctions s)
                      = Some auction"
    and running: "case au_end_time auction of None \<Rightarrow> True | Some t \<Rightarrow> now < t"
    and not_seller: "au_seller_id auction \<noteq> user_id"
    and existing: "find_active_by_bidder s (au_id auction) user_id = Some existing"
  shows "(\<exists>s'. place_bid_on_artwork s now user_id artwork_id (Some amount) = Inr s') \<longleftrightarrow>
           b_amount existing < amount \<and>
           amount - b_amount existing \<le> get_available_balance s user_id"
    and "place_bid_on_artwork s now user_id artwork_id (Some amount) = Inr s' \<Longrightarrow>
           balances s' = (balances s)(user_id \<mapsto>
             (case balances s user_id of
                None \<Rightarrow> \<lparr>available_balance = - (amount - b_amount existing),
                          pending_balance = amount - b_amount existing\<rparr>
              | Some bal \<Rightarrow>
                  \<lparr>available_balance = available_balance bal - (amount - b_amount existing),
                   pending_balance = pending_balance bal + (amount - b_amount existing)\<rparr>))"
proof -
  note ne = not_ended [OF running]
  show "(\<exists>s'. place_bid_on_artwork s now user_id artwork_id (Some amount) = Inr s') \<longleftrightarrow>
           b_amount existing < amount \<and>
           amount - b_amount existing \<le> get_available_balance s user_id"
    using auction ne not_seller existing
    by (auto simp: place_bid_on_artwork_def Let_def get_available_balance_def)
  show "place_bid_on_artwork s now user_id artwork_id (Some amount) = Inr s' \<Longrightarrow>
           balances s' = (balances s)(user_id \<mapsto>
             (case balances s user_id of
                None \<Rightarrow> \<lparr>available_balance = - (amount - b_amount existing),
                          pending_balance = amount - b_amount existing\<rparr>
              | Some bal \<Rightarrow>
                  \<lparr>available_balance = available_balance bal - (amount - b_amount existing),
                   pending_balance = pending_balance bal + (amount - b_amount existing)\<rparr>))"
    using auction ne not_seller existing
    by (auto simp: place_bid_on_artwork_def Let_def insert_txn_def set_bid_amount_balances
        hold_balances split: if_splits)
qed

lemma BidService_update_bid_raise:
  assumes bid: "find (\<lambda>b. b_id b = bid_id) (bids s) = Some existing"
    and own: "b_bidder_id existing = user_id"
    and auction: "find (\<lambda>a. au_id a = b_auction_id existing) (auctions s) = Some auction"
    and opn: "au_status auction = Open"
  shows "(\<exists>s'. BidService_update_bid s bid_id user_id amount = Inr s') \<longleftrightarrow>
           b_amount existing < amount \<and>
           amount - b_amount existing \<le> get_available_balance s user_id"
    and "BidService_update_bid s bid_id user_id amount = Inr s' \<Longrightarrow>
           balances s' = (balances s)(user_id \<mapsto>
             (case balances s user_id of
                None \<Rightarrow> \<lparr>available_balance = - (amount - b_amount existing),
                          pending_balance = amount - b_amount existing\<rparr>
              | Some bal \<Rightarrow>
                  \<lparr>available_balance = available_balance bal - (amount - b_amount existing),
                   pending_balance = pending_balance bal + (amount - b_amount existing)\<rparr>))"
proof -
  show "(\<exists>s'. BidService_update_bid s bid_id user_id amount = Inr s') \<longleftrightarrow>
           b_amount existing < amount \<and>
           amount - b_amount existing \<le> get_available_balance s user_id"
    using bid own auction opn
    by (auto simp: BidService_update_bid_def Let_def)
  show "BidService_update_bid s bid_id user_id amount = Inr s' \<Longrightarrow>
           balances s' = (balances s)(user_id \<mapsto>
             (case balances s user_id of
                None \<Rightarrow> \<lparr>available_balance = - (amount - b_amount existing),
                          pending_balance = amount - b_amount existing\<rparr>
              | Some bal \<Rightarrow>
                  \<lparr>available_balance = available_balance bal - (amount - b_amount existing),
                   pending_balance = pending_balance bal + (amount - b_amount existing)\<rparr>))"
    using bid own auction opn
    by (auto simp: BidService_update_bid_def Let_def set_bid_amount_balances
        BalanceRepository_update_def get_available_balance_def split: if_splits option.splits)
qed


text \<open>
  C6 (raise semantics): a bidder with an active bid on an open, running auction of another
  user asks for a new amount, through the route \<open>place_bid_on_artwork\<close> or through
  \<open>BidService.update_bid\<close>, and has the difference to the existing amount available.
  The raise is admitted exactly when the new amount is strictly above the bidder's own
  existing amount; the highest bid of the auction plays no part. An admitted raise takes the
  difference, not the new amount, from the available balance and adds it to the pending one.
\<close>

theorem raise_semantics:
  assumes auction: "find (\<lambda>a. au_artwork_id a = artwork_id \<and> au_status a = Open) (auctions s)
                      = Some auction"
    and running: "case au_end_time auction of None \<Rightarrow> True | Some t \<Rightarrow> now < t"
    and not_seller: "au_seller_id auction \<noteq> user_id"
    and existing: "find_active_by_bidder s (au_id auction) user_id = Some existing"
    and bid_key: "find (\<lambda>b. b_id b = b_id existing) (bids s) = Some existing"
    and auction_key: "find (\<lambda>a. au_id a = au_id auction) (auctions s) = Some auction"
    and funds: "amount - b_amount existing \<le> get_available_balance s user_id"
  shows "\<forall>r\<in>{place_bid_on_artwork s now user_id artwork_id (Some amount),
              BidService_update_bid s (b_id existing) user_id amount}.
           ((\<exists>s'. r = Inr s') \<longleftrightarrow> b_amount existing < amount) \<and>
           (\<forall>s'. r = Inr s' \<longrightarrow>
              (\<exists>bal. balances s user_id = Some bal \<and>
                 balances s' = (balances s)(user_id \<mapsto>
                   \<lparr>available_balance = available_balance bal - (amount - b_amount existing),
                    pending_balance = pending_balance bal + (amount - b_amount existing)\<rparr>)))"
proof -
  from find_active_by_bidder_Some [OF existing]
  have own: "b_bidder_id existing = user_id" and au: "b_auction_id existing = au_id auction"
    by simp_all
  from auction have opn: "au_status auction = Open" by (auto simp: find_Some_iff)
  have auction': "find (\<lambda>a. au_id a = b_auction_id existing) (auctions s) = Some auction"
    using auction_key au by simp
  note a = place_bid_on_artwork_raise [OF auction running not_seller existing]
  note b = BidService_update_bid_raise [OF bid_key own auction' opn]
  have row: "\<exists>bal. balances s user_id = Some bal" if "b_amount existing < amount"
    using that funds by (cases "balances s user_id") (auto simp: get_available_balance_def)
  have "((\<exists>s'. r = Inr s') \<longleftrightarrow> b_amount existing < amount) \<and>
           (\<forall>s'. r = Inr s' \<longrightarrow>
              (\<exists>bal. balances s user_id = Some bal \<and>
                 balances s' = (balances s)(user_id \<mapsto>
                   \<lparr>available_balance = available_balance bal - (amount - b_amount existing),
                    pending_balance = pending_balance bal + (amount - b_amount existing)\<rparr>)))"
    if iff: "(\<exists>s'. r = Inr s') \<longleftrightarrow>
               b_amount existing < amount \<and>
               amount - b_amount existing \<le> get_available_balance s user_id"
      and bal: "\<And>s'. r = Inr s' \<Longrightarrow>
           balances s' = (balances s)(user_id \<mapsto>
             (case balances s user_id of
                None \<Rightarrow> \<lparr>available_balance = - (amount - b_amount existing),
                          pending_balance = amount - b_amount existing\<rparr>
              | Some bal \<Rightarrow>
                  \<lparr>available_balance = available_balance bal - (amount - b_amount existing),
                   pending_balance = pending_balance bal + (amount - b_amount existing)\<rparr>))"
    for r
  proof (intro conjI allI impI)
    show "(\<exists>s'. r = Inr s') \<longleftrightarrow> b_amount existing < amount" using iff funds by simp
  next
    fix s' assume r: "r = Inr s'"
    with iff have "b_amount existing < amount" by blast
    from row [OF this] obtain bal0 where b0: "balances s user_id = Some bal0" by blast
    from bal [OF r] b0 show "\<exists>bal. balances s user_id = Some bal \<and>
                 balances s' = (balances s)(user_id \<mapsto>
                   \<lparr>available_balance = available_balance bal - (amount - b_amount existing),
                    pending_balance = pending_balance bal + (amount - b_amount existing)\<rparr>)"
      by simp
  qed
  from this [OF a] this [OF b] show ?thesis by simp
qed

theorem raise_semantics_witness:
  "current_bid raise_example 1 = Some 300 \<and>
   find_active_by_bidder raise_example 1 2 =
     Some \<lparr>b_id = 1, b_auction_id = 1, b_bidder_id = 2, b_amount = 200, b_is_active = True\<rparr> \<and>
   balances raise_example 2 = Some \<lparr>available_balance = 50, pending_balance = 200\<rparr> \<and>
   (\<exists>s'. place_bid_on_artwork raise_example 0 2 10 (Some 250) = Inr s' \<and>
      balances s' 2 = Some \<lparr>available_balance = 0, pending_balance = 250\<rparr>) \<and>
   (\<exists>s'. BidService_update_bid raise_example 1 2 250 = Inr s' \<and>
      balances s' 2 = Some \<lparr>available_balance = 0, pending_balance = 250\<rparr>)"
proof -
  let ?au = "sale_auction"
  let ?b = "\<lparr>b_id = 1, b_auction_id = 1, b_bidder_id = 2, b_amount = 200, b_is_active = True\<rparr>"
  have id: "au_id ?au = 1" by (simp add: example_defs)
  have h1: "find (\<lambda>a. au_artwork_id a = 10 \<and> au_status a = Open) (auctions raise_example) = Some ?au"
    by (simp add: example_defs)
  have h2: "case au_end_time ?au of None \<Rightarrow> True | Some t \<Rightarrow> 0 < t" by (simp add: example_defs)
  have h3: "au_seller_id ?au \<noteq> 2" by (simp add: example_defs)
  have h4: "find_active_by_bidder raise_example (au_id ?au) 2 = Some ?b"
    by (simp add: example_defs find_active_by_bidder_def)
  have h5: "find (\<lambda>b. b_id b = b_id ?b) (bids raise_example) = Some ?b"
    by (simp add: example_defs)
  have h6: "find (\<lambda>a. au_id a = au_id ?au) (auctions raise_example) = Some ?au"
    by (simp add: example_defs)
  have h7: "250 - b_amount ?b \<le> get_available_balance raise_example 2"
    by (simp add: example_defs get_available_balance_def)
  have cb: "current_bid raise_example 1 = Some 300"
    by (simp add: example_defs current_bid_def active_bids_def)
  have bal: "balances raise_example 2 = Some \<lparr>available_balance = 50, pending_balance = 200\<rparr>"
    by (simp add: example_defs)
  note th = raise_semantics [OF h1 h2 h3 h4 h5 h6 h7]
  have concl: "\<exists>s'. r = Inr s' \<and>
      balances s' 2 = Some \<lparr>available_balance = 0, pending_balance = 250\<rparr>"
    if "r \<in> {place_bid_on_artwork raise_example 0 2 10 (Some 250),
              BidService_update_bid raise_example (b_id ?b) 2 250}" for r
  proof -
    from th that have iff: "(\<exists>s'. r = Inr s') \<longleftrightarrow> b_amount ?b < 250"
      and mv: "\<forall>s'. r = Inr s' \<longrightarrow>
              (\<exists>bal. balances raise_example 2 = Some bal \<and>
                 balances s' = (balances raise_example)(2 \<mapsto>
                   \<lparr>available_balance = available_balance bal - (250 - b_amount ?b),
                    pending_balance = pending_balance bal + (250 - b_amount ?b)\<rparr>))"
      by blast+
    from iff obtain s' where r: "r = Inr s'" by auto
    with mv bal have "balances s' 2 = Some \<lparr>available_balance = 0, pending_balance = 250\<rparr>"
      by auto
    with r show ?thesis by blast
  qed
  have "b_id ?b = 1" by simp
  with concl [of "place_bid_on_artwork raise_example 0 2 10 (Some 250)"]
    concl [of "BidService_update_bid raise_example 1 2 250"]
  have both: "(\<exists>s'. place_bid_on_artwork raise_example 0 2 10 (Some 250) = Inr s' \<and>
      balances s' 2 = Some \<lparr>available_balance = 0, pending_balance = 250\<rparr>) \<and>
   (\<exists>s'. BidService_update_bid raise_example 1 2 250 = Inr s' \<and>
      balances s' 2 = Some \<lparr>available_balance = 0, pending_balance = 250\<rparr>)"
    by simp
  from h4 have h4': "find_active_by_bidder raise_example 1 2 = Some ?b" unfolding id .
  show ?thesis using cb h4' bal both by blast
qed

lemma place_bid_on_artwork_first:
  assumes auction: "find (\<lambda>a. au_artwork_id a = artwork_id \<and> au_status a = Open) (auctions s)
                      = Some auction"
    and running: "case au_end_time auction of None \<Rightarrow> True | Some t \<Rightarrow> now < t"
    and not_seller: "au_seller_id auction \<noteq> user_id"
    and none: "find_active_by_bidder s (au_id auction) user_id = None"
  shows "(\<exists>s'. place_bid_on_artwork s now user_id artwork_id (Some amount) = Inr s') \<longleftrightarrow>
           amount \<le> get_available_balance s user_id \<and> min_bid s auction < amount"
  using auction not_ended [OF running] not_seller none
  by (auto simp: place_bid_on_artwork_def Let_def)

lemma BidService_place_bid_first:
  assumes auction: "find (\<lambda>a. au_id a = auction_id) (auctions s) = Some auction"
    and opn: "au_status auction = Open"
    and artwork: "artworks s (au_artwork_id auction) = Some ar"
    and not_owner: "ar_owner_id ar \<noteq> bidder_id"
    and none: "find_active_by_bidder s auction_id bidder_id = None"
  shows "(\<exists>s'. BidService_place_bid s auction_id bidder_id amount = Inr s') \<longleftrightarrow>
           amount \<le> get_available_balance s bidder_id \<and> min_bid s auction < amount"
  using auction opn artwork not_owner none
  by (auto simp: BidService_place_bid_def Let_def)

text \<open>
  C7 as stated (a first bid equal to the start price succeeds) fails: nobody has bid on the
  example auction with start price 100, user 3 has 500 available, and a bid of exactly 100
  before the end of the auction is rejected.
\<close>

theorem first_bid_at_start_price_counterexample:
  "current_bid fresh_example 1 = None \<and>
   map au_start_price (auctions fresh_example) = [100] \<and>
   get_available_balance fresh_example 3 = 500 \<and>
   place_bid_on_artwork fresh_example 0 3 10 (Some 100) = Inl (HTTP 400 ''Bid must exceed'')"
  by (simp add: example_defs bid_defs)

text \<open>
  C7 as amended (first-bid threshold): a bidder without an active bid on an open, running
  auction of another user, who has the amount available, is admitted by the route
  \<open>place_bid_on_artwork\<close> and by \<open>BidService.place_bid\<close> exactly when the amount is
  strictly above the threshold: the highest active bid when there is one (and it is not 0),
  the start price otherwise. Ties are rejected in both cases, so a first bid must strictly
  exceed the start price.
\<close>

theorem first_bid_threshold:
  assumes auction: "find (\<lambda>a. au_artwork_id a = artwork_id \<and> au_status a = Open) (auctions s)
                      = Some auction"
    and running: "case au_end_time auction of None \<Rightarrow> True | Some t \<Rightarrow> now < t"
    and not_seller: "au_seller_id auction \<noteq> user_id"
    and none: "find_active_by_bidder s (au_id auction) user_id = None"
    and auction_key: "find (\<lambda>a. au_id a = au_id auction) (auctions s) = Some auction"
    and artwork: "artworks s (au_artwork_id auction) = Some ar"
    and not_owner: "ar_owner_id ar \<noteq> user_id"
    and funds: "amount \<le> get_available_balance s user_id"
  shows "\<forall>r\<in>{place_bid_on_artwork s now user_id artwork_id (Some amount),
              BidService_place_bid s (au_id auction) user_id amount}.
           ((\<exists>s'. r = Inr s') \<longleftrightarrow>
              (case current_bid s (au_id auction) of
                 None \<Rightarrow> au_start_price auction < amount
               | Some highest_amount \<Rightarrow>
                   if highest_amount = 0 then au_start_price auction < amount
                   else highest_amount < amount))"
proof -
  from auction have opn: "au_status auction = Open" by (auto simp: find_Some_iff)
  have m: "(min_bid s auction < amount) =
           (case current_bid s (au_id auction) of
                 None \<Rightarrow> au_start_price auction < amount
               | Some highest_amount \<Rightarrow>
                   if highest_amount = 0 then au_start_price auction < amount
                   else highest_amount < amount)"
    by (simp add: min_bid_def split: option.splits)
  from place_bid_on_artwork_first [OF auction running not_seller none, of amount]
    BidService_place_bid_first [OF auction_key opn artwork not_owner none, of amount]
    funds
  show ?thesis unfolding m by simp
qed

theorem first_bid_threshold_witness:
  "current_bid fresh_example 1 = None \<and>
   map au_start_price (auctions fresh_example) = [100] \<and>
   get_available_balance fresh_example 3 = 500 \<and>
   (\<exists>s'. place_bid_on_artwork fresh_example 0 3 10 (Some 101) = Inr s') \<and>
   (\<exists>s'. BidService_place_bid fresh_example 1 3 101 = Inr s') \<and>
   (\<nexists>s'. BidService_place_bid fresh_example 1 3 100 = Inr s')"
proof -
  let ?au = "sale_auction"
  have id: "au_id ?au = 1" "au_start_price ?au = 100" by (simp_all add: example_defs)
  have h1: "find (\<lambda>a. au_artwork_id a = 10 \<and> au_status a = Open) (auctions fresh_example) = Some ?au"
    by (simp add: example_defs)
  have h2: "case au_end_time ?au of None \<Rightarrow> True | Some t \<Rightarrow> 0 < t" by (simp add: example_defs)
  have h3: "au_seller_id ?au \<noteq> 3" by (simp add: example_defs)
  have h4: "find_active_by_bidder fresh_example (au_id ?au) 3 = None"
    by (simp add: example_defs find_active_by_bidder_def)
  have h5: "find (\<lambda>a. au_id a = au_id ?au) (auctions fresh_example) = Some ?au"
    by (simp add: example_defs)
  have h6: "artworks fresh_example (au_artwork_id ?au) =
              Some \<lparr>ar_owner_id = 1, ar_is_listed = True, ar_listing_type = Some Auction\<rparr>"
    by (simp add: example_defs)
  have h7: "ar_owner_id \<lparr>ar_owner_id = 1, ar_is_listed = True, ar_listing_type = Some Auction\<rparr> \<noteq> 3"
    by simp
  have av: "get_available_balance fresh_example 3 = 500"
    by (simp add: example_defs get_available_balance_def)
  have h8: "101 \<le> get_available_balance fresh_example 3" and h8': "100 \<le> get_available_balance fresh_example 3"
    by (simp_all add: av)
  have cb: "current_bid fresh_example 1 = None"
    by (simp add: example_defs current_bid_def active_bids_def)
  have sp: "map au_start_price (auctions fresh_example) = [100]" by (simp add: example_defs)
  from first_bid_threshold [OF h1 h2 h3 h4 h5 h6 h7 h8, unfolded id cb]
  have a: "(\<exists>s'. place_bid_on_artwork fresh_example 0 3 10 (Some 101) = Inr s')"
    and b: "(\<exists>s'. BidService_place_bid fresh_example 1 3 101 = Inr s')"
    by simp_all
  from first_bid_threshold [OF h1 h2 h3 h4 h5 h6 h7 h8', unfolded id cb]
  have c: "\<nexists>s'. BidService_place_bid fresh_example 1 3 100 = Inr s'"
    by simp
  show ?thesis using cb sp av a b c by blast
qed

section \<open>Properties of cancellation\<close>

lemma refund_active_bidder_frame:
  "auctions (refund_active_bidder s art u t) = auctions s"
  "artworks (refund_active_bidder s art u t) = artworks s"
  "bids (refund_active_bidder s art u t) = bids s"
  by (simp_all add: refund_active_bidder_def insert_txn_def Let_def)

lemma refund_active_loop_frame:
  "auctions (foldl (\<lambda>s' (u, total). refund_active_bidder s' art u total) s rows) = auctions s \<and>
   artworks (foldl (\<lambda>s' (u, total). refund_active_bidder s' art u total) s rows) = artworks s \<and>
   bids (foldl (\<lambda>s' (u, total). refund_active_bidder s' art u total) s rows) = bids s"
  by (induction rows arbitrary: s) (auto simp: refund_active_bidder_frame)

lemma refund_active_bids_frame:
  "auctions (refund_active_bids s a) = auctions s"
  "artworks (refund_active_bids s a) = artworks s"
  "bids (refund_active_bids s a) =
     map (\<lambda>b. if b_auction_id b = a \<and> b_is_active b then b\<lparr>b_is_active := False\<rparr> else b) (bids s)"
  by (simp_all add: refund_active_bids_def Let_def refund_active_loop_frame)

lemma refund_active_bids_none:
  assumes "active_bids s a = []"
  shows "refund_active_bids s a = s"
proof -
  have "map (\<lambda>b. if b_auction_id b = a \<and> b_is_active b then b\<lparr>b_is_active := False\<rparr> else b)
          (bids s) = bids s"
  proof (rule map_idI)
    fix b assume "b \<in> set (bids s)"
    with assms have "\<not> (b_auction_id b = a \<and> b_is_active b)"
      by (auto simp: active_bids_def filter_empty_conv)
    then show "(if b_auction_id b = a \<and> b_is_active b then b\<lparr>b_is_active := False\<rparr> else b) = b"
      by simp
  qed
  with assms show ?thesis
    by (simp add: refund_active_bids_def Let_def group_by_bidder_def)
qed

lemma active_bids_after_refund: "active_bids (refund_active_bids s a) a = []"
  unfolding active_bids_def refund_active_bids_frame filter_empty_conv
proof
  fix c
  assume "c \<in> set (map (\<lambda>b. if b_auction_id b = a \<and> b_is_active b
                             then b\<lparr>b_is_active := False\<rparr> else b) (bids s))"
  then obtain b where
    c: "c = (if b_auction_id b = a \<and> b_is_active b then b\<lparr>b_is_active := False\<rparr> else b)"
    by (auto simp only: set_map image_iff)
  show "\<not> (b_auction_id c = a \<and> b_is_active c)"
    unfolding c by (cases "b_auction_id b = a \<and> b_is_active b") simp_all
qed

lemma find_map_status:
  "find (\<lambda>x. au_id x = a) (map (\<lambda>x. if au_id x = a then x\<lparr>au_status := st\<rparr> else x) xs) =
   map_option (\<lambda>x. x\<lparr>au_status := st\<rparr>) (find (\<lambda>x. au_id x = a) xs)"
  by (induction xs) auto

text \<open>
  C9 as stated (cancel is a no-op on a closed auction, and no status leaves closed) fails:
  cancelling the closed example auction without bids turns its status into cancelled; and
  cancelling the sold example auction also deactivates the winner's bid, which settlement
  left active, and pays the 200 of the sale back to the winner.
\<close>

theorem cancel_closed_auction_counterexample:
  "map au_status (auctions closed_example) = [Closed] \<and>
   map au_status (auctions (cancel_auction closed_example 1 Cancelled)) = [Cancelled] \<and>
   map au_status (auctions settled_once) = [Closed] \<and>
   map b_is_active (bids settled_once) = [True] \<and>
   balances settled_once 2 = Some \<lparr>available_balance = 50, pending_balance = 0\<rparr> \<and>
   map au_status (auctions (cancel_auction settled_once 1 Cancelled)) = [Cancelled] \<and>
   map b_is_active (bids (cancel_auction settled_once 1 Cancelled)) = [False] \<and>
   balances (cancel_auction settled_once 1 Cancelled) 2 =
     Some \<lparr>available_balance = 250, pending_balance = 0\<rparr>"
  by (simp add: example_defs settle_defs cancel_auction_def refund_active_bids_def
      refund_active_bidder_def)

text \<open>
  C9 as amended (cancellation): \<open>cancel_auction\<close> has no status check. Whatever the status
  of an existing auction was, it is cancelled afterwards; when the auction has no active
  bids, no bid, balance, transaction or artwork changes; and cancelling an auction a second
  time changes nothing at all.
\<close>

theorem cancel_auction_idempotent:
  "cancel_auction (cancel_auction s auction_id Cancelled) auction_id Cancelled =
     cancel_auction s auction_id Cancelled \<and>
   (\<forall>a\<in>set (auctions (cancel_auction s auction_id Cancelled)).
      au_id a = auction_id \<longrightarrow> au_status a = Cancelled) \<and>
   (active_bids s auction_id = [] \<longrightarrow>
      bids (cancel_auction s auction_id Cancelled) = bids s \<and>
      balances (cancel_auction s auction_id Cancelled) = balances s \<and>
      transactions (cancel_auction s auction_id Cancelled) = transactions s \<and>
      artworks (cancel_auction s auction_id Cancelled) = artworks s)"
proof (intro conjI impI)
  define f where "f = (\<lambda>a::auction. if au_id a = auction_id then a\<lparr>au_status := Cancelled\<rparr> else a)"
  have ff: "f \<circ> f = f" by (rule ext) (simp add: f_def)
  show "cancel_auction (cancel_auction s auction_id Cancelled) auction_id Cancelled =
          cancel_auction s auction_id Cancelled"
  proof (cases "find (\<lambda>a. au_id a = auction_id) (auctions s)")
    case None
    then show ?thesis by (simp add: cancel_auction_def)
  next
    case (Some au)
    define s1 where "s1 = refund_active_bids s auction_id"
    define s2 where "s2 = s1\<lparr>auctions := map f (auctions s1)\<rparr>"
    have c1: "cancel_auction s auction_id Cancelled = s2"
      using Some by (simp add: cancel_auction_def Let_def s2_def s1_def f_def)
    have "active_bids s2 auction_id = active_bids s1 auction_id"
      by (simp add: s2_def active_bids_def)
    then have none: "active_bids s2 auction_id = []"
      by (simp add: s1_def active_bids_after_refund)
    have found: "find (\<lambda>a. au_id a = auction_id) (auctions s2) = Some (au\<lparr>au_status := Cancelled\<rparr>)"
      using Some
      by (simp add: s2_def s1_def refund_active_bids_frame f_def find_map_status)
    have "cancel_auction s2 auction_id Cancelled = s2\<lparr>auctions := map f (auctions s2)\<rparr>"
      using found
      by (simp add: cancel_auction_def Let_def refund_active_bids_none [OF none] f_def)
    also have "\<dots> = s2" by (simp add: s2_def ff)
    finally show ?thesis by (simp add: c1)
  qed
  show "\<forall>a\<in>set (auctions (cancel_auction s auction_id Cancelled)).
          au_id a = auction_id \<longrightarrow> au_status a = Cancelled"
  proof (cases "find (\<lambda>a. au_id a = auction_id) (auctions s)")
    case None
    then have "cancel_auction s auction_id Cancelled = s" by (simp add: cancel_auction_def)
    moreover from None have "\<forall>a\<in>set (auctions s). au_id a \<noteq> auction_id"
      by (simp add: find_None_iff)
    ultimately show ?thesis by simp
  next
    case (Some au)
    then have au: "auctions (cancel_auction s auction_id Cancelled) = map f (auctions s)"
      by (simp add: cancel_auction_def Let_def refund_active_bids_frame f_def)
    have "au_status (f y) = Cancelled" if "au_id (f y) = auction_id" for y
      using that by (cases "au_id y = auction_id") (simp_all add: f_def)
    then show ?thesis unfolding au by simp
  qed
  assume none: "active_bids s auction_id = []"
  show "bids (cancel_auction s auction_id Cancelled) = bids s"
    "balances (cancel_auction s auction_id Cancelled) = balances s"
    "transactions (cancel_auction s auction_id Cancelled) = transactions s"
    "artworks (cancel_auction s auction_id Cancelled) = artworks s"
    by (simp_all add: cancel_auction_def Let_def refund_active_bids_none [OF none]
        split: option.splits)
qed

theorem cancel_auction_idempotent_witness:
  "active_bids closed_example 1 = [] \<and>
   cancel_auction (cancel_auction closed_example 1 Cancelled) 1 Cancelled =
     cancel_auction closed_example 1 Cancelled \<and>
   balances (cancel_auction closed_example 1 Cancelled) = balances closed_example \<and>
   bids (cancel_auction closed_example 1 Cancelled) = bids closed_example \<and>
   map b_is_active (bids raise_example) = [True, True] \<and>
   map b_is_active (bids (cancel_auction raise_example 1 Cancelled)) = [False, False] \<and>
   cancel_auction (cancel_auction raise_example 1 Cancelled) 1 Cancelled =
     cancel_auction raise_example 1 Cancelled"
proof -
  have none: "active_bids closed_example 1 = []"
    by (simp add: example_defs active_bids_def)
  have before: "map b_is_active (bids raise_example) = [True, True]"
    by (simp add: example_defs)
  have after: "map b_is_active (bids (cancel_auction raise_example 1 Cancelled)) = [False, False]"
    by (simp add: example_defs cancel_auction_def refund_active_bids_frame Let_def)
  from cancel_auction_idempotent [of closed_example 1] none
    cancel_auction_idempotent [of raise_example 1] before after
  show ?thesis by simp
qed

end
